theory Spec2Isabelle
  imports Complex_Main "HOL-Library.Word"
begin

section \<open>Python values used by the token manager\<close>

text \<open>
  A Python \<open>str\<close> is a sequence of Unicode code points and a \<open>bytes\<close> object a sequence
  of 8-bit values. The two are different types here as well, since \<open>auth.py\<close> converts
  between them (\<open>str(value).encode("utf-8")\<close>, \<open>cached.decode("utf-8")\<close>).
  \<open>lit\<close> turns an ASCII literal of the source into its code points.
\<close>

type_synonym str = "nat list"
type_synonym byte = "8 word"
type_synonym bytes = "byte list"

definition lit :: "string \<Rightarrow> str" where
  "lit s = map (of_char :: char \<Rightarrow> nat) s"

subsection \<open>The UTF-8 codec\<close>

text \<open>
  \<open>str.encode("utf-8")\<close> raises \<open>UnicodeEncodeError\<close> on a surrogate code point
  (\<open>None\<close> here); \<open>bytes.decode("utf-8")\<close> is strict and raises
  \<open>UnicodeDecodeError\<close> on an invalid start or continuation byte, a truncated or
  overlong sequence, an encoded surrogate and a value beyond U+10FFFF (\<open>None\<close> here).
\<close>

definition surrogate :: "nat \<Rightarrow> bool" where
  "surrogate c = (0xD800 \<le> c \<and> c \<le> 0xDFFF)"

definition utf8_encode_char :: "nat \<Rightarrow> bytes option" where
  "utf8_encode_char c =
     (if c < 0x80 then Some [of_nat c]
      else if c < 0x800 then
        Some [of_nat (0xC0 + c div 0x40), of_nat (0x80 + c mod 0x40)]
      else if surrogate c then None
      else if c < 0x10000 then
        Some [of_nat (0xE0 + c div 0x1000), of_nat (0x80 + c div 0x40 mod 0x40),
              of_nat (0x80 + c mod 0x40)]
      else if c < 0x110000 then
        Some [of_nat (0xF0 + c div 0x40000), of_nat (0x80 + c div 0x1000 mod 0x40),
              of_nat (0x80 + c div 0x40 mod 0x40), of_nat (0x80 + c mod 0x40)]
      else None)"

fun utf8_encode :: "str \<Rightarrow> bytes option" where
  "utf8_encode [] = Some []"
| "utf8_encode (c # cs) =
     (case utf8_encode_char c of
        None \<Rightarrow> None
      | Some bs \<Rightarrow> (case utf8_encode cs of None \<Rightarrow> None | Some r \<Rightarrow> Some (bs @ r)))"

definition continuation :: "byte \<Rightarrow> bool" where
  "continuation b = (0x80 \<le> unat b \<and> unat b < 0xC0)"

definition payload_bits :: "byte \<Rightarrow> nat" where
  "payload_bits b = unat b - 0x80"

fun utf8_decode :: "bytes \<Rightarrow> str option" where
  "utf8_decode [] = Some []"
| "utf8_decode (b # bs) =
     (let n = unat b in
      if n < 0x80 then map_option ((#) n) (utf8_decode bs)
      else if n < 0xC0 then None
      else if n < 0xE0 then
        (case bs of
           b1 # r \<Rightarrow>
             (let c = (n - 0xC0) * 0x40 + payload_bits b1 in
              if continuation b1 \<and> 0x80 \<le> c
              then map_option ((#) c) (utf8_decode r) else None)
         | _ \<Rightarrow> None)
      else if n < 0xF0 then
        (case bs of
           b1 # b2 # r \<Rightarrow>
             (let c = (n - 0xE0) * 0x1000 + payload_bits b1 * 0x40 + payload_bits b2 in
              if continuation b1 \<and> continuation b2 \<and> 0x800 \<le> c \<and> \<not> surrogate c
              then map_option ((#) c) (utf8_decode r) else None)
         | _ \<Rightarrow> None)
      else if n < 0xF8 then
        (case bs of
           b1 # b2 # b3 # r \<Rightarrow>
             (let c = (n - 0xF0) * 0x40000 + payload_bits b1 * 0x1000
                      + payload_bits b2 * 0x40 + payload_bits b3 in
              if continuation b1 \<and> continuation b2 \<and> continuation b3
                 \<and> 0x10000 \<le> c \<and> c < 0x110000
              then map_option ((#) c) (utf8_decode r) else None)
         | _ \<Rightarrow> None)
      else None)"

subsection \<open>String operations\<close>

text \<open>\<open>needle in haystack\<close> on two strs: the substring test.\<close>

fun contains :: "str \<Rightarrow> str \<Rightarrow> bool" where
  "contains needle [] = (needle = [])"
| "contains needle (h # hs) =
     (take (length needle) (h # hs) = needle \<or> contains needle hs)"

text \<open>
  \<open>str.strip()\<close> removes leading and trailing whitespace: the code points for which
  Python's \<open>str.isspace\<close> holds.
\<close>

definition py_isspace :: "nat \<Rightarrow> bool" where
  "py_isspace c =
     ((0x09 \<le> c \<and> c \<le> 0x0D) \<or> (0x1C \<le> c \<and> c \<le> 0x20) \<or> c = 0x85 \<or> c = 0xA0
      \<or> c = 0x1680 \<or> (0x2000 \<le> c \<and> c \<le> 0x200A) \<or> c = 0x2028 \<or> c = 0x2029
      \<or> c = 0x202F \<or> c = 0x205F \<or> c = 0x3000)"

definition strip :: "str \<Rightarrow> str" where
  "strip s = rev (dropWhile py_isspace (rev (dropWhile py_isspace s)))"

subsection \<open>Parsed JSON\<close>

text \<open>
  What \<open>resp.json()\<close> returns: \<open>None\<close>, a bool, an int, a float, a str, a list or a
  dict. A dict is an association list; \<open>dict.get\<close> reads the entry of a key.
\<close>

datatype json =
    JNull
  | JBool bool
  | JInt int
  | JFloat real
  | JStr str
  | JArr "json list"
  | JObj "(str \<times> json) list"

text \<open>The truth value of an object, as \<open>if x\<close>, \<open>not x\<close> and \<open>x or y\<close> read it.\<close>

fun truthy :: "json \<Rightarrow> bool" where
  "truthy JNull = False"
| "truthy (JBool b) = b"
| "truthy (JInt i) = (i \<noteq> 0)"
| "truthy (JFloat x) = (x \<noteq> 0)"
| "truthy (JStr s) = (s \<noteq> [])"
| "truthy (JArr xs) = (xs \<noteq> [])"
| "truthy (JObj kvs) = (kvs \<noteq> [])"

text \<open>\<open>x or y\<close>: \<open>x\<close> when it is true, else \<open>y\<close>.\<close>

definition py_or :: "json \<Rightarrow> json \<Rightarrow> json" where
  "py_or x y = (if truthy x then x else y)"

text \<open>\<open>d.get(key)\<close> on a dict: the value, or \<open>None\<close> for a missing key.\<close>

definition dict_get :: "(str \<times> json) list \<Rightarrow> str \<Rightarrow> json" where
  "dict_get kvs key = (case map_of kvs key of None \<Rightarrow> JNull | Some v \<Rightarrow> v)"

text \<open>
  \<open>str(v)\<close> and the f-string field \<open>{v}\<close>: a str is itself. How the interpreter prints
  any other object (a number, a list, a dict) is no code of this repository; it is the
  parameter \<open>repr\<close> of every function that formats a value.
\<close>

definition py_str :: "(json \<Rightarrow> str) \<Rightarrow> json \<Rightarrow> str" where
  "py_str repr v = (case v of JStr s \<Rightarrow> s | _ \<Rightarrow> repr v)"

section \<open>Errors\<close>

text \<open>
  Modelled from the spec: the exception classes of \<open>skribble.exceptions\<close>, which are
  imported by \<open>auth.py\<close>. \<open>SkribbleAuthError\<close> carries its message,
  \<open>SkribbleHTTPError\<close> the status code, the message, \<open>response_json\<close> and
  \<open>response_text\<close>. The other constructors are the interpreter's exceptions that
  \<open>auth.py\<close> can raise and does not catch; \<open>AttributeError\<close> names the attribute that
  was looked up, \<open>CacheError\<close> is a failure of an injected cache backend.
\<close>

datatype error =
    AttributeError string
  | JSONDecodeError
  | UnicodeEncodeError
  | UnicodeDecodeError
  | CacheError str
  | SkribbleAuthError str
  | SkribbleHTTPError int str "json option" str

section \<open>config.py\<close>

text \<open>
  The dataclass \<open>SkribbleConfig\<close> with its seven fields. A dataclass instance is an
  ordinary object: attributes other than the declared fields exist on it only when they
  have been set on the instance; \<open>extra_attrs\<close> holds those.
\<close>

record SkribbleConfig =
  api_base_url :: str
  management_base_url :: str
  timeout :: int
  verify_ssl :: bool
  user_agent :: str
  access_token_ttl_seconds :: int
  redis_key_prefix :: str
  extra_attrs :: "(string \<times> str) list"

definition DEFAULT_API_BASE_URL :: str where
  "DEFAULT_API_BASE_URL = lit ''https://api.skribble.com/v2''"

definition DEFAULT_MANAGEMENT_BASE_URL :: str where
  "DEFAULT_MANAGEMENT_BASE_URL = lit ''https://api.skribble.com/management''"

definition DEFAULT_API_BASE_EU_URL :: str where
  "DEFAULT_API_BASE_EU_URL = lit ''https://api.skribble.de/v2''"

definition DEFAULT_MANAGEMENT_BASE_EU_URL :: str where
  "DEFAULT_MANAGEMENT_BASE_EU_URL = lit ''https://api.skribble.de/management''"

definition DEFAULT_ACCESS_TOKEN_TTL_SECONDS :: int where
  "DEFAULT_ACCESS_TOKEN_TTL_SECONDS = 20 * 60"

text \<open>\<open>SkribbleConfig()\<close> and \<open>SkribbleEUConfig()\<close>: every field at its default.\<close>

definition SkribbleConfig_default :: SkribbleConfig where
  "SkribbleConfig_default =
     \<lparr> api_base_url = DEFAULT_API_BASE_URL,
       management_base_url = DEFAULT_MANAGEMENT_BASE_URL,
       timeout = 30,
       verify_ssl = True,
       user_agent = lit ''skribble-sdk/0.1.4'',
       access_token_ttl_seconds = DEFAULT_ACCESS_TOKEN_TTL_SECONDS,
       redis_key_prefix = lit ''skribble'',
       extra_attrs = [] \<rparr>"

definition SkribbleEUConfig_default :: SkribbleConfig where
  "SkribbleEUConfig_default =
     SkribbleConfig_default
       \<lparr> api_base_url := DEFAULT_API_BASE_EU_URL,
         management_base_url := DEFAULT_MANAGEMENT_BASE_EU_URL \<rparr>"

text \<open>
  \<open>cfg.cache_key_prefix\<close> (auth.py, line 84). The dataclass declares
  \<open>redis_key_prefix\<close> and no \<open>cache_key_prefix\<close>, so the lookup finds the attribute
  only among those set on the instance, and raises \<open>AttributeError\<close> otherwise.
\<close>

definition cache_key_prefix :: "SkribbleConfig \<Rightarrow> error + str" where
  "cache_key_prefix c =
     (case map_of (extra_attrs c) ''cache_key_prefix'' of
        None \<Rightarrow> Inl (AttributeError ''cache_key_prefix'')
      | Some p \<Rightarrow> Inr p)"

section \<open>auth.py\<close>

subsection \<open>The in-memory cache\<close>

text \<open>
  \<open>_InMemoryTokenCache._data\<close>: a dict from key to (expiry instant, payload). Instants
  are the readings of \<open>time.time()\<close>, taken as exact numbers; each operation receives
  the reading of its own call as \<open>now\<close>. The sum \<open>time.time() + ttl_seconds\<close> of line 52
  is the exact sum here, where Python rounds it to a float and raises \<open>OverflowError\<close>
  for a \<open>ttl_seconds\<close> that no float holds; the two agree wherever the sum is a float,
  as it is for \<open>ttl_seconds = 0\<close>. The lock makes each operation atomic, which a
  function from state to state is.
\<close>

type_synonym memory = "str \<rightharpoonup> real \<times> bytes"

definition InMemoryTokenCache_init :: memory where
  "InMemoryTokenCache_init = Map.empty"

definition InMemoryTokenCache_get :: "str \<Rightarrow> real \<Rightarrow> memory \<Rightarrow> bytes option \<times> memory" where
  "InMemoryTokenCache_get key now data =
     (case data key of
        None \<Rightarrow> (None, data)
      | Some (expires_at, v) \<Rightarrow>
          if expires_at < now then (None, data(key := None))
          else (Some v, data))"

text \<open>What \<open>setex\<close> is given as \<open>value: Any\<close>: bytes, or another object.\<close>

datatype cache_value = Bytes bytes | Obj json

definition InMemoryTokenCache_setex ::
  "(json \<Rightarrow> str) \<Rightarrow> str \<Rightarrow> int \<Rightarrow> cache_value \<Rightarrow> real \<Rightarrow> memory \<Rightarrow> (error + unit) \<times> memory" where
  "InMemoryTokenCache_setex repr key ttl_seconds v now data =
     (case (case v of Bytes b \<Rightarrow> Some b | Obj x \<Rightarrow> utf8_encode (py_str repr x)) of
        None \<Rightarrow> (Inl UnicodeEncodeError, data)
      | Some payload \<Rightarrow> (Inr (), data(key \<mapsto> (now + real_of_int ttl_seconds, payload))))"

subsection \<open>The collaborators of TokenManager\<close>

text \<open>
  The protocol \<open>TokenCache\<close>: \<open>get\<close> and \<open>setex\<close> over the state \<open>'s\<close> of the backend.
  Either may raise; the state it leaves is returned beside the result.
\<close>

record 's TokenCache =
  get :: "str \<Rightarrow> 's \<Rightarrow> (error + bytes option) \<times> 's"
  setex :: "str \<Rightarrow> int \<Rightarrow> cache_value \<Rightarrow> 's \<Rightarrow> (error + unit) \<times> 's"

text \<open>
  The in-memory cache as a \<open>TokenCache\<close>, for one call of \<open>get_access_token\<close>:
  \<open>t_get\<close> and \<open>t_setex\<close> are what \<open>time.time()\<close> reads in its \<open>get\<close> and its \<open>setex\<close>.
\<close>

definition InMemoryTokenCache :: "(json \<Rightarrow> str) \<Rightarrow> real \<Rightarrow> real \<Rightarrow> memory TokenCache" where
  "InMemoryTokenCache repr t_get t_setex =
     \<lparr> get = (\<lambda>key data. case InMemoryTokenCache_get key t_get data of (v, data') \<Rightarrow> (Inr v, data')),
       setex = (\<lambda>key ttl_seconds v data. InMemoryTokenCache_setex repr key ttl_seconds v t_setex data) \<rparr>"

text \<open>
  The HTTP exchange. A request records the arguments of \<open>session.post\<close>; a response is
  what \<open>auth.py\<close> reads of a \<open>requests.Response\<close>: \<open>status_code\<close>, the header
  \<open>Content-Type\<close> (if any), \<open>text\<close> and the result of \<open>json()\<close>, with \<open>None\<close> when the
  body is no JSON and \<open>json()\<close> raises \<open>JSONDecodeError\<close>.
\<close>

record request =
  req_url :: str
  req_json :: "(str \<times> str) list"
  req_timeout :: int
  req_verify :: bool

record response =
  status_code :: int
  content_type :: "str option"
  body_text :: str
  json_body :: "json option"

text \<open>
  The fields of a \<open>TokenManager\<close>. \<open>session\<close> answers a request with a response, or
  with the text of the \<open>requests.RequestException\<close> it raises.
\<close>

record 's TokenManager =
  username :: str
  api_key :: str
  session :: "request \<Rightarrow> str + response"
  cfg :: SkribbleConfig
  cache :: "'s TokenCache"
  tenant_id :: "str option"

text \<open>
  What a call can change: the state of the cache backend, and the network, seen as the
  list of the requests sent so far.
\<close>

record 's world =
  cache_state :: 's
  requests_sent :: "request list"

subsection \<open>TokenManager\<close>

text \<open>The property \<open>_cache_key\<close> (lines 82-87).\<close>

definition cache_key :: "'s TokenManager \<Rightarrow> error + str" where
  "cache_key m =
     (case cache_key_prefix (cfg m) of
        Inl e \<Rightarrow> Inl e
      | Inr prefix \<Rightarrow>
          (let base = prefix @ lit '':token:'' @ username m in
           case tenant_id m of
             None \<Rightarrow> Inr base
           | Some t \<Rightarrow> if t \<noteq> [] then Inr (base @ lit '':'' @ t) else Inr base))"

text \<open>The request of \<open>_login\<close> (lines 107-119).\<close>

definition login_request :: "'s TokenManager \<Rightarrow> request" where
  "login_request m =
     \<lparr> req_url = api_base_url (cfg m) @ lit ''/access/login'',
       req_json = [(lit ''username'', username m), (lit ''api-key'', api_key m)],
       req_timeout = timeout (cfg m),
       req_verify = verify_ssl (cfg m) \<rparr>"

text \<open>
  \<open>data.get("message") or data.get("error") or text\<close> (line 127) and the chain of
  lines 144-149. \<open>get\<close> is a method of dicts only: on any other object the first
  \<open>data.get\<close> raises \<open>AttributeError\<close>.
\<close>

definition error_message :: "json \<Rightarrow> str \<Rightarrow> error + json" where
  "error_message data txt =
     (case data of
        JObj kvs \<Rightarrow>
          Inr (py_or (dict_get kvs (lit ''message''))
                (py_or (dict_get kvs (lit ''error'')) (JStr txt)))
      | _ \<Rightarrow> Inl (AttributeError ''get''))"

definition token_fields :: "json \<Rightarrow> error + json" where
  "token_fields data =
     (case data of
        JObj kvs \<Rightarrow>
          Inr (py_or (dict_get kvs (lit ''access_token''))
                (py_or (dict_get kvs (lit ''token''))
                  (py_or (dict_get kvs (lit ''jwt''))
                    (dict_get kvs (lit ''AUTH_ACCESS_TOKEN'')))))
      | _ \<Rightarrow> Inl (AttributeError ''get''))"

text \<open>Lines 123-163 of \<open>_login\<close>: what it makes of the response.\<close>

definition login_result :: "(json \<Rightarrow> str) \<Rightarrow> response \<Rightarrow> error + json" where
  "login_result repr resp =
     (if status_code resp \<noteq> 200 then
        (let txt = body_text resp in
         case json_body resp of
           None \<Rightarrow>
             Inl (SkribbleHTTPError (status_code resp) (lit ''Login failed: '' @ txt) None txt)
         | Some data \<Rightarrow>
             (case error_message data txt of
                Inl e \<Rightarrow> Inl e
              | Inr msg \<Rightarrow>
                  Inl (SkribbleHTTPError (status_code resp)
                        (lit ''Login failed: '' @ py_str repr msg) (Some data) txt)))
      else
        (case
           (if contains (lit ''application/json'')
                 (case content_type resp of None \<Rightarrow> [] | Some c \<Rightarrow> c)
            then
              (case json_body resp of
                 None \<Rightarrow> Inl JSONDecodeError
               | Some data \<Rightarrow>
                   (case token_fields data of
                      Inl e \<Rightarrow> Inl e
                    | Inr token \<Rightarrow>
                        (let token' =
                               (if \<not> truthy token
                                then (case data of JStr s \<Rightarrow> JStr s | _ \<Rightarrow> token)
                                else token)
                         in if \<not> truthy token'
                            then Inl (SkribbleAuthError
                                  (lit ''Login succeeded but no access token found in response JSON.''))
                            else Inr token')))
            else Inr (JStr (strip (body_text resp))))
         of
           Inl e \<Rightarrow> Inl e
         | Inr token \<Rightarrow>
             if \<not> truthy token
             then Inl (SkribbleAuthError (lit ''Login succeeded but access token is empty.''))
             else Inr token))"

text \<open>\<open>_login\<close>: one request is sent, whatever comes of it.\<close>

definition login ::
  "(json \<Rightarrow> str) \<Rightarrow> 's TokenManager \<Rightarrow> request list \<Rightarrow> (error + json) \<times> request list" where
  "login repr m sent =
     (case session m (login_request m) of
        Inl exc \<Rightarrow>
          (Inl (SkribbleAuthError (lit ''Failed to call Skribble login endpoint: '' @ exc)),
           sent @ [login_request m])
      | Inr resp \<Rightarrow> (login_result repr resp, sent @ [login_request m]))"

text \<open>Lines 98-101 of \<open>get_access_token\<close>: log in, store the token, return it.\<close>

definition refresh ::
  "(json \<Rightarrow> str) \<Rightarrow> 's TokenManager \<Rightarrow> 's world \<Rightarrow> (error + json) \<times> 's world" where
  "refresh repr m w =
     (case login repr m (requests_sent w) of
        (Inl e, sent) \<Rightarrow> (Inl e, w\<lparr>requests_sent := sent\<rparr>)
      | (Inr token, sent) \<Rightarrow>
          (case cache_key m of
             Inl e \<Rightarrow> (Inl e, w\<lparr>requests_sent := sent\<rparr>)
           | Inr key \<Rightarrow>
               (case setex (cache m) key (access_token_ttl_seconds (cfg m)) (Obj token)
                       (cache_state w) of
                  (Inl e, s) \<Rightarrow> (Inl e, \<lparr>cache_state = s, requests_sent = sent\<rparr>)
                | (Inr u, s) \<Rightarrow> (Inr token, \<lparr>cache_state = s, requests_sent = sent\<rparr>))))"

text \<open>\<open>get_access_token\<close> (lines 89-101).\<close>

definition get_access_token ::
  "(json \<Rightarrow> str) \<Rightarrow> 's TokenManager \<Rightarrow> bool \<Rightarrow> 's world \<Rightarrow> (error + json) \<times> 's world" where
  "get_access_token repr m force_refresh w =
     (if \<not> force_refresh then
        (case cache_key m of
           Inl e \<Rightarrow> (Inl e, w)
         | Inr key \<Rightarrow>
             (case get (cache m) key (cache_state w) of
                (Inl e, s) \<Rightarrow> (Inl e, w\<lparr>cache_state := s\<rparr>)
              | (Inr cached, s) \<Rightarrow>
                  (case cached of
                     None \<Rightarrow> refresh repr m (w\<lparr>cache_state := s\<rparr>)
                   | Some b \<Rightarrow>
                       if b \<noteq> [] then
                         (case utf8_decode b of
                            None \<Rightarrow> (Inl UnicodeDecodeError, w\<lparr>cache_state := s\<rparr>)
                          | Some token \<Rightarrow> (Inr (JStr token), w\<lparr>cache_state := s\<rparr>))
                       else refresh repr m (w\<lparr>cache_state := s\<rparr>))))
      else refresh repr m w)"

section \<open>Concrete objects for the closed examples\<close>

text \<open>
  A configuration on which the attribute \<open>cache_key_prefix\<close> has been set, as
  \<open>cfg = SkribbleConfig(); cfg.cache_key_prefix = "skribble"\<close> does.
\<close>

definition example_config :: SkribbleConfig where
  "example_config =
     SkribbleConfig_default \<lparr> extra_attrs := [(''cache_key_prefix'', lit ''skribble'')] \<rparr>"

text \<open>The same with another value of the attribute.\<close>

definition prefixed_config :: "str \<Rightarrow> SkribbleConfig" where
  "prefixed_config p =
     SkribbleConfig_default \<lparr> extra_attrs := [(''cache_key_prefix'', p)] \<rparr>"

text \<open>
  In the closed examples every formatted value is a str, so the printing of other objects
  is never consulted; \<open>repr_unused\<close> stands for it there, and its mark would show in a
  result that did consult it.
\<close>

definition repr_unused :: "json \<Rightarrow> str" where
  "repr_unused v = lit ''<object>''"

text \<open>
  A manager over the in-memory cache: its configuration, user name and tenant, the answer
  its session gives to every request, and the clock readings of its cache operations.
\<close>

definition example_manager ::
  "SkribbleConfig \<Rightarrow> str \<Rightarrow> str option \<Rightarrow> (str + response) \<Rightarrow> real \<Rightarrow> real \<Rightarrow> memory TokenManager" where
  "example_manager config user tenant answer t_get t_setex =
     \<lparr> username = user,
       api_key = lit ''api-key-1'',
       session = (\<lambda>req. answer),
       cfg = config,
       cache = InMemoryTokenCache repr_unused t_get t_setex,
       tenant_id = tenant \<rparr>"

text \<open>A response with the content type \<open>application/json\<close> and a body that parses.\<close>

definition json_response :: "int \<Rightarrow> str \<Rightarrow> json \<Rightarrow> response" where
  "json_response status txt data =
     \<lparr> status_code = status, content_type = Some (lit ''application/json''),
       body_text = txt, json_body = Some data \<rparr>"

text \<open>The bytes literal \<open>b"..."\<close> of ASCII characters.\<close>

definition ascii_bytes :: "string \<Rightarrow> bytes" where
  "ascii_bytes s = map (of_char :: char \<Rightarrow> byte) s"

section \<open>Facts about the codec\<close>

lemma unat_byte: "n < 256 \<Longrightarrow> unat (of_nat n :: byte) = n"
  by (simp add: unat_of_nat)

lemma decode1:
  "unat b0 = c \<Longrightarrow> c < 0x80 \<Longrightarrow>
   utf8_decode (b0 # rest) = map_option ((#) c) (utf8_decode rest)"
  by simp

lemma decode2:
  "unat b0 = 0xC0 + h \<Longrightarrow> h < 0x20 \<Longrightarrow> unat b1 = 0x80 + l \<Longrightarrow> l < 0x40 \<Longrightarrow>
   0x80 \<le> h * 0x40 + l \<Longrightarrow>
   utf8_decode (b0 # b1 # rest) = map_option ((#) (h * 0x40 + l)) (utf8_decode rest)"
  by (simp add: continuation_def payload_bits_def)

lemma decode3:
  "unat b0 = 0xE0 + h \<Longrightarrow> h < 0x10 \<Longrightarrow> unat b1 = 0x80 + k \<Longrightarrow> k < 0x40 \<Longrightarrow>
   unat b2 = 0x80 + l \<Longrightarrow> l < 0x40 \<Longrightarrow>
   0x800 \<le> h * 0x1000 + k * 0x40 + l \<Longrightarrow> \<not> surrogate (h * 0x1000 + k * 0x40 + l) \<Longrightarrow>
   utf8_decode (b0 # b1 # b2 # rest)
   = map_option ((#) (h * 0x1000 + k * 0x40 + l)) (utf8_decode rest)"
  by (simp add: continuation_def payload_bits_def)

lemma decode4:
  "unat b0 = 0xF0 + h \<Longrightarrow> h < 0x8 \<Longrightarrow> unat b1 = 0x80 + j \<Longrightarrow> j < 0x40 \<Longrightarrow>
   unat b2 = 0x80 + k \<Longrightarrow> k < 0x40 \<Longrightarrow> unat b3 = 0x80 + l \<Longrightarrow> l < 0x40 \<Longrightarrow>
   0x10000 \<le> h * 0x40000 + j * 0x1000 + k * 0x40 + l \<Longrightarrow>
   h * 0x40000 + j * 0x1000 + k * 0x40 + l < 0x110000 \<Longrightarrow>
   utf8_decode (b0 # b1 # b2 # b3 # rest)
   = map_option ((#) (h * 0x40000 + j * 0x1000 + k * 0x40 + l)) (utf8_decode rest)"
  by (simp add: continuation_def payload_bits_def)

lemma split2: "(c::nat) div 0x40 * 0x40 + c mod 0x40 = c"
  by simp

lemma lin3: "(c::nat) = q * 0x40 + a \<Longrightarrow> q = r * 0x40 + b \<Longrightarrow> r * 0x1000 + b * 0x40 + a = c"
  by simp

lemma lin4:
  "(c::nat) = q * 0x40 + a \<Longrightarrow> q = r * 0x40 + b \<Longrightarrow> r = s * 0x40 + d \<Longrightarrow>
   s * 0x40000 + d * 0x1000 + b * 0x40 + a = c"
  by simp

lemma split3: "(c::nat) div 0x1000 * 0x1000 + c div 0x40 mod 0x40 * 0x40 + c mod 0x40 = c"
proof -
  have r: "c div 0x1000 = c div 0x40 div 0x40"
    by (simp add: div_mult2_eq)
  have 1: "c = c div 0x40 * 0x40 + c mod 0x40"
    by simp
  have 2: "c div 0x40 = c div 0x40 div 0x40 * 0x40 + c div 0x40 mod 0x40"
    by simp
  show ?thesis
    unfolding r by (rule lin3 [OF 1 2])
qed

lemma split4:
  "(c::nat) div 0x40000 * 0x40000 + c div 0x1000 mod 0x40 * 0x1000 + c div 0x40 mod 0x40 * 0x40
   + c mod 0x40 = c"
proof -
  have r: "c div 0x1000 = c div 0x40 div 0x40"
    by (simp add: div_mult2_eq)
  have s: "c div 0x40000 = c div 0x40 div 0x40 div 0x40"
    by (simp add: div_mult2_eq)
  have 1: "c = c div 0x40 * 0x40 + c mod 0x40"
    by simp
  have 2: "c div 0x40 = c div 0x40 div 0x40 * 0x40 + c div 0x40 mod 0x40"
    by simp
  have 3: "c div 0x40 div 0x40 = c div 0x40 div 0x40 div 0x40 * 0x40 + c div 0x40 div 0x40 mod 0x40"
    by simp
  show ?thesis
    unfolding r s by (rule lin4 [OF 1 2 3])
qed

text \<open>Decoding undoes the encoding of one code point, whatever follows it.\<close>

lemma utf8_decode_encode_char:
  assumes "utf8_encode_char c = Some bs"
  shows "utf8_decode (bs @ rest) = map_option ((#) c) (utf8_decode rest)"
proof -
  consider (one) "c < 0x80"
    | (two) "0x80 \<le> c" "c < 0x800"
    | (three) "0x800 \<le> c" "c < 0x10000" "\<not> surrogate c"
    | (four) "0x10000 \<le> c" "c < 0x110000"
    using assms by (auto simp: utf8_encode_char_def split: if_splits)
  then show ?thesis
  proof cases
    case one
    then have bs: "bs = [of_nat c]"
      using assms by (simp add: utf8_encode_char_def)
    have "unat (of_nat c :: byte) = c"
      using one by (intro unat_byte) simp
    from decode1 [OF this one] show ?thesis
      by (simp only: bs append.simps)
  next
    case two
    then have bs: "bs = [of_nat (0xC0 + c div 0x40), of_nat (0x80 + c mod 0x40)]"
      using assms by (simp add: utf8_encode_char_def)
    have h: "c div 0x40 < 0x20"
      using two by simp
    have l: "c mod 0x40 < 0x40"
      by simp
    have a: "unat (of_nat (0xC0 + c div 0x40) :: byte) = 0xC0 + c div 0x40"
      using h by (intro unat_byte) simp
    have b: "unat (of_nat (0x80 + c mod 0x40) :: byte) = 0x80 + c mod 0x40"
      using l by (intro unat_byte) simp
    have lo: "0x80 \<le> c div 0x40 * 0x40 + c mod 0x40"
      unfolding split2 by (rule two(1))
    from decode2 [OF a h b l lo] show ?thesis
      by (simp only: bs append.simps split2)
  next
    case three
    then have bs: "bs = [of_nat (0xE0 + c div 0x1000), of_nat (0x80 + c div 0x40 mod 0x40),
                         of_nat (0x80 + c mod 0x40)]"
      using assms by (simp add: utf8_encode_char_def)
    have h: "c div 0x1000 < 0x10"
      using three by simp
    have k: "c div 0x40 mod 0x40 < 0x40"
      by simp
    have l: "c mod 0x40 < 0x40"
      by simp
    have a: "unat (of_nat (0xE0 + c div 0x1000) :: byte) = 0xE0 + c div 0x1000"
      using h by (intro unat_byte) simp
    have b: "unat (of_nat (0x80 + c div 0x40 mod 0x40) :: byte) = 0x80 + c div 0x40 mod 0x40"
      using k by (intro unat_byte) simp
    have d: "unat (of_nat (0x80 + c mod 0x40) :: byte) = 0x80 + c mod 0x40"
      using l by (intro unat_byte) simp
    have lo: "0x800 \<le> c div 0x1000 * 0x1000 + c div 0x40 mod 0x40 * 0x40 + c mod 0x40"
      unfolding split3 by (rule three(1))
    have ns: "\<not> surrogate (c div 0x1000 * 0x1000 + c div 0x40 mod 0x40 * 0x40 + c mod 0x40)"
      unfolding split3 by (rule three(3))
    from decode3 [OF a h b k d l lo ns] show ?thesis
      by (simp only: bs append.simps split3)
  next
    case four
    then have ns: "\<not> surrogate c"
      by (simp add: surrogate_def)
    have bs: "bs = [of_nat (0xF0 + c div 0x40000), of_nat (0x80 + c div 0x1000 mod 0x40),
                    of_nat (0x80 + c div 0x40 mod 0x40), of_nat (0x80 + c mod 0x40)]"
      using assms four ns by (simp add: utf8_encode_char_def)
    have h: "c div 0x40000 < 0x8"
      using four by simp
    have j: "c div 0x1000 mod 0x40 < 0x40"
      by simp
    have k: "c div 0x40 mod 0x40 < 0x40"
      by simp
    have l: "c mod 0x40 < 0x40"
      by simp
    have a: "unat (of_nat (0xF0 + c div 0x40000) :: byte) = 0xF0 + c div 0x40000"
      using h by (intro unat_byte) simp
    have b: "unat (of_nat (0x80 + c div 0x1000 mod 0x40) :: byte) = 0x80 + c div 0x1000 mod 0x40"
      using j by (intro unat_byte) simp
    have d: "unat (of_nat (0x80 + c div 0x40 mod 0x40) :: byte) = 0x80 + c div 0x40 mod 0x40"
      using k by (intro unat_byte) simp
    have e: "unat (of_nat (0x80 + c mod 0x40) :: byte) = 0x80 + c mod 0x40"
      using l by (intro unat_byte) simp
    have lo: "0x10000 \<le> c div 0x40000 * 0x40000 + c div 0x1000 mod 0x40 * 0x1000
                + c div 0x40 mod 0x40 * 0x40 + c mod 0x40"
      unfolding split4 by (rule four(1))
    have hi: "c div 0x40000 * 0x40000 + c div 0x1000 mod 0x40 * 0x1000
                + c div 0x40 mod 0x40 * 0x40 + c mod 0x40 < 0x110000"
      unfolding split4 by (rule four(2))
    from decode4 [OF a h b j d k e l lo hi] show ?thesis
      by (simp only: bs append.simps split4)
  qed
qed

text \<open>What \<open>encode\<close> produces, \<open>decode\<close> reads back.\<close>

lemma utf8_decode_encode:
  "utf8_encode s = Some bs \<Longrightarrow> utf8_decode bs = Some s"
proof (induction s arbitrary: bs)
  case Nil
  then show ?case by simp
next
  case (Cons c cs)
  then obtain b r where b: "utf8_encode_char c = Some b" and r: "utf8_encode cs = Some r"
    and bs: "bs = b @ r"
    by (auto split: option.splits)
  from Cons.IH [OF r] utf8_decode_encode_char [OF b, of r] show ?case
    by (simp add: bs)
qed

text \<open>A str of code points up to U+10FFFF without surrogates can be encoded.\<close>

lemma utf8_encode_total:
  "(\<forall>c \<in> set s. c < 0x110000 \<and> \<not> surrogate c) \<Longrightarrow> \<exists>bs. utf8_encode s = Some bs"
  by (induction s) (auto simp: utf8_encode_char_def)

lemma utf8_encode_Nil_iff: "utf8_encode s = Some [] \<longleftrightarrow> s = []"
  by (cases s) (auto simp: utf8_encode_char_def split: option.splits if_splits)

section \<open>The cache key\<close>

lemma cache_key_format:
  assumes "cache_key_prefix (cfg m) = Inr p"
  shows "cache_key m =
         Inr (p @ lit '':token:'' @ username m @
              (case tenant_id m of None \<Rightarrow> [] | Some t \<Rightarrow> if t \<noteq> [] then lit '':'' @ t else []))"
  using assms by (simp add: cache_key_def split: option.splits)

lemma colon_split:
  "c \<notin> set u1 \<Longrightarrow> c \<notin> set u2 \<Longrightarrow> u1 @ c # t1 = u2 @ c # t2 \<Longrightarrow> u1 = u2 \<and> t1 = t2"
proof (induction u1 arbitrary: u2)
  case Nil
  then show ?case by (cases u2) auto
next
  case (Cons a u1)
  then show ?case by (cases u2) auto
qed

lemma lit_colon: "lit '':'' = [of_char CHR '':'']"
  by (simp add: lit_def)

lemma suffix_cases:
  "(case x of None \<Rightarrow> [] | Some t \<Rightarrow> if t \<noteq> [] then [c] @ t else []) = []
   \<or> (\<exists>t. (case x of None \<Rightarrow> [] | Some t \<Rightarrow> if t \<noteq> [] then [c] @ t else []) = c # t)"
  by (cases x) auto

lemma suffix_eq_iff:
  "((case x of None \<Rightarrow> [] | Some t \<Rightarrow> if t \<noteq> [] then [c] @ t else [])
    = (case y of None \<Rightarrow> [] | Some t \<Rightarrow> if t \<noteq> [] then [c] @ t else []))
   \<longleftrightarrow> (x = y \<or> x \<in> {None, Some []} \<and> y \<in> {None, Some []})"
  by (cases x; cases y) auto

lemma key_injective:
  assumes eq: "u1 @ s1 = u2 @ s2"
    and s1: "s1 = [] \<or> (\<exists>t. s1 = c # t)" and s2: "s2 = [] \<or> (\<exists>t. s2 = c # t)"
    and side: "u1 = u2 \<or> s1 = s2 \<or> c \<notin> set u1 \<and> c \<notin> set u2"
  shows "u1 = u2 \<and> s1 = s2"
proof -
  consider (u) "u1 = u2" | (s) "s1 = s2" | (c) "c \<notin> set u1" "c \<notin> set u2"
    using side by blast
  then show ?thesis
  proof cases
    case u
    with eq show ?thesis by simp
  next
    case s
    with eq show ?thesis by simp
  next
    case c
    show ?thesis
    proof (cases "s1 = []")
      case True
      show ?thesis
      proof (cases "s2 = []")
        case True
        with \<open>s1 = []\<close> eq show ?thesis by simp
      next
        case False
        then obtain t where "s2 = c # t" using s2 by blast
        with \<open>s1 = []\<close> eq have "c \<in> set u1" by simp
        with c show ?thesis by simp
      qed
    next
      case False
      then obtain t1 where t1: "s1 = c # t1" using s1 by blast
      show ?thesis
      proof (cases "s2 = []")
        case True
        with t1 eq have "c \<in> set u2" by (metis append_Nil2 in_set_conv_decomp)
        with c show ?thesis by simp
      next
        case False
        then obtain t2 where t2: "s2 = c # t2" using s2 by blast
        from colon_split [OF c] eq show ?thesis by (simp add: t1 t2)
      qed
    qed
  qed
qed


text \<open>
  C1. The key is to be \<open>prefix:token:username[:tenant]\<close> with the configured prefix, and
  computing it is to succeed with the default configuration. \<open>_cache_key\<close> reads
  \<open>cfg.cache_key_prefix\<close>, an attribute that \<open>SkribbleConfig\<close> does not declare (its
  field is \<open>redis_key_prefix\<close>): with \<open>SkribbleConfig()\<close> or \<open>SkribbleEUConfig()\<close>, for
  every user name and tenant, computing the key raises \<open>AttributeError\<close> and yields no
  string.
\<close>

theorem cache_key_default_config:
  "cache_key (m\<lparr>cfg := SkribbleConfig_default\<rparr>) = Inl (AttributeError ''cache_key_prefix'')
   \<and> cache_key (m\<lparr>cfg := SkribbleEUConfig_default\<rparr>) = Inl (AttributeError ''cache_key_prefix'')"
  by (simp add: cache_key_def cache_key_prefix_def SkribbleConfig_default_def
      SkribbleEUConfig_default_def)

lemma cache_key_prefix_example: "cache_key_prefix example_config = Inr (lit ''skribble'')"
  by (simp add: cache_key_prefix_def example_config_def SkribbleConfig_default_def)

lemma cache_key_prefix_prefixed: "cache_key_prefix (prefixed_config p) = Inr p"
  by (simp add: cache_key_prefix_def prefixed_config_def SkribbleConfig_default_def)

text \<open>
  C4, as the claim states it, fails at three pairs of managers. Under one prefix, the user
  name \<open>a:b\<close> without a tenant has the key of the user name \<open>a\<close> with the tenant \<open>b\<close>.
  Under different prefixes, the prefix \<open>org:token:x\<close> with the user name \<open>y\<close> has the
  key of the prefix \<open>org\<close> with the user name \<open>x\<close> and the tenant \<open>token:y\<close>. And the
  empty tenant identifier gives the key of no tenant. Each pair differs in the user name
  or in the tenant, and has one key.
\<close>

theorem cache_key_collision:
  "username (example_manager example_config (lit ''a:b'') None (Inl []) 0 0)
     \<noteq> username (example_manager example_config (lit ''a'') (Some (lit ''b'')) (Inl []) 0 0)
   \<and> tenant_id (example_manager example_config (lit ''a:b'') None (Inl []) 0 0)
     \<noteq> tenant_id (example_manager example_config (lit ''a'') (Some (lit ''b'')) (Inl []) 0 0)
   \<and> cache_key (example_manager example_config (lit ''a:b'') None (Inl []) 0 0)
     = Inr (lit ''skribble:token:a:b'')
   \<and> cache_key (example_manager example_config (lit ''a'') (Some (lit ''b'')) (Inl []) 0 0)
     = Inr (lit ''skribble:token:a:b'')
   \<and> cache_key_prefix (cfg (example_manager (prefixed_config (lit ''org:token:x'')) (lit ''y'') None
          (Inl []) 0 0))
     = Inr (lit ''org:token:x'')
   \<and> cache_key_prefix (cfg (example_manager (prefixed_config (lit ''org'')) (lit ''x'')
          (Some (lit ''token:y'')) (Inl []) 0 0))
     = Inr (lit ''org'')
   \<and> lit ''y'' \<noteq> lit ''x''
   \<and> cache_key (example_manager (prefixed_config (lit ''org:token:x'')) (lit ''y'') None
          (Inl []) 0 0)
     = Inr (lit ''org:token:x:token:y'')
   \<and> cache_key (example_manager (prefixed_config (lit ''org'')) (lit ''x'')
          (Some (lit ''token:y'')) (Inl []) 0 0)
     = Inr (lit ''org:token:x:token:y'')
   \<and> tenant_id (example_manager example_config (lit ''a'') None (Inl []) 0 0)
     \<noteq> tenant_id (example_manager example_config (lit ''a'') (Some []) (Inl []) 0 0)
   \<and> cache_key (example_manager example_config (lit ''a'') None (Inl []) 0 0)
     = Inr (lit ''skribble:token:a'')
   \<and> cache_key (example_manager example_config (lit ''a'') (Some []) (Inl []) 0 0)
     = Inr (lit ''skribble:token:a'')"
  by (simp add: cache_key_def cache_key_prefix_example cache_key_prefix_prefixed
      example_manager_def lit_def)

lemma lit_token: "lit '':token:'' = of_char CHR '':'' # lit ''token:''"
  by (simp add: lit_def)

lemma get_after_setex_other:
  "k1 \<noteq> k2 \<Longrightarrow>
   fst (InMemoryTokenCache_get k2 now (snd (InMemoryTokenCache_setex repr k1 ttl v t data)))
   = fst (InMemoryTokenCache_get k2 now data)"
  by (simp add: InMemoryTokenCache_get_def InMemoryTokenCache_setex_def
      split: option.splits cache_value.splits)

text \<open>
  C4, amended. Two managers whose configurations provide a prefix (no configuration built
  by the constructors of \<open>config.py\<close> does, see C1): equal prefixes, equal user names
  and equal tenants (an empty tenant counting as none) give equal keys; and equal keys
  give equal prefixes, equal user names and equal tenants whenever the managers differ
  in at most one of the three, or have one prefix and no colon in their user names, or
  have no colon in their prefixes and user names. Under different keys, what one manager
  stores in the in-memory cache leaves what the other reads as it was.
\<close>

theorem cache_key_namespacing:
  fixes m1 :: "'a TokenManager" and m2 :: "'b TokenManager"
  assumes "cache_key_prefix (cfg m1) = Inr p1" and "cache_key_prefix (cfg m2) = Inr p2"
  shows "(p1 = p2 \<and> username m1 = username m2
          \<and> (tenant_id m1 = tenant_id m2
             \<or> tenant_id m1 \<in> {None, Some []} \<and> tenant_id m2 \<in> {None, Some []})
          \<longrightarrow> cache_key m1 = cache_key m2)
       \<and> (cache_key m1 = cache_key m2
          \<and> (p1 = p2
               \<and> (username m1 = username m2
                  \<or> (tenant_id m1 = tenant_id m2
                     \<or> tenant_id m1 \<in> {None, Some []} \<and> tenant_id m2 \<in> {None, Some []})
                  \<or> of_char CHR '':'' \<notin> set (username m1)
                    \<and> of_char CHR '':'' \<notin> set (username m2))
             \<or> username m1 = username m2
               \<and> (tenant_id m1 = tenant_id m2
                  \<or> tenant_id m1 \<in> {None, Some []} \<and> tenant_id m2 \<in> {None, Some []})
             \<or> of_char CHR '':'' \<notin> set p1 \<and> of_char CHR '':'' \<notin> set p2
               \<and> of_char CHR '':'' \<notin> set (username m1)
               \<and> of_char CHR '':'' \<notin> set (username m2))
          \<longrightarrow> p1 = p2 \<and> username m1 = username m2
              \<and> (tenant_id m1 = tenant_id m2
                 \<or> tenant_id m1 \<in> {None, Some []} \<and> tenant_id m2 \<in> {None, Some []}))
       \<and> (\<forall>k1 k2. cache_key m1 = Inr k1 \<and> cache_key m2 = Inr k2 \<and> k1 \<noteq> k2
          \<longrightarrow> fst (InMemoryTokenCache_get k2 now
                     (snd (InMemoryTokenCache_setex repr k1 ttl v t data)))
              = fst (InMemoryTokenCache_get k2 now data))"
proof -
  define c :: nat where "c = of_char CHR '':''"
  define s1 where "s1 = (case tenant_id m1 of None \<Rightarrow> [] | Some t \<Rightarrow> if t \<noteq> [] then [c] @ t else [])"
  define s2 where "s2 = (case tenant_id m2 of None \<Rightarrow> [] | Some t \<Rightarrow> if t \<noteq> [] then [c] @ t else [])"
  define same where "same \<longleftrightarrow> tenant_id m1 = tenant_id m2
     \<or> tenant_id m1 \<in> {None, Some []} \<and> tenant_id m2 \<in> {None, Some []}"
  have k1: "cache_key m1 = Inr (p1 @ c # lit ''token:'' @ username m1 @ s1)"
    unfolding s1_def c_def using cache_key_format [OF assms(1)]
    by (simp only: lit_colon lit_token append_Cons)
  have k2: "cache_key m2 = Inr (p2 @ c # lit ''token:'' @ username m2 @ s2)"
    unfolding s2_def c_def using cache_key_format [OF assms(2)]
    by (simp only: lit_colon lit_token append_Cons)
  have same: "s1 = s2 \<longleftrightarrow> same"
    unfolding s1_def s2_def same_def by (rule suffix_eq_iff)
  have c1: "s1 = [] \<or> (\<exists>t. s1 = c # t)"
    unfolding s1_def by (rule suffix_cases)
  have c2: "s2 = [] \<or> (\<exists>t. s2 = c # t)"
    unfolding s2_def by (rule suffix_cases)
  have a: "p1 = p2 \<and> username m1 = username m2 \<and> same \<longrightarrow> cache_key m1 = cache_key m2"
    using same by (simp add: k1 k2)
  have one_prefix: "username m1 = username m2 \<and> same"
    if eq: "cache_key m1 = cache_key m2" and p: "p1 = p2"
      and side: "username m1 = username m2 \<or> same \<or> c \<notin> set (username m1) \<and> c \<notin> set (username m2)"
  proof -
    from eq p have e: "username m1 @ s1 = username m2 @ s2"
      by (simp add: k1 k2)
    from side same
    have "username m1 = username m2 \<or> s1 = s2 \<or> c \<notin> set (username m1) \<and> c \<notin> set (username m2)"
      by blast
    with e c1 c2 have "username m1 = username m2 \<and> s1 = s2"
      by (rule key_injective)
    with same show ?thesis by simp
  qed
  have one_rest: "p1 = p2"
    if eq: "cache_key m1 = cache_key m2" and u: "username m1 = username m2" and t: same
  proof -
    from t same have "s1 = s2" by simp
    with eq u show ?thesis by (simp add: k1 k2)
  qed
  have no_colon: "p1 = p2"
    if eq: "cache_key m1 = cache_key m2" and "c \<notin> set p1" and "c \<notin> set p2"
  proof -
    from eq have "p1 @ c # (lit ''token:'' @ username m1 @ s1)
                  = p2 @ c # (lit ''token:'' @ username m2 @ s2)"
      by (simp add: k1 k2)
    with that(2,3) show ?thesis
      by (blast dest: colon_split)
  qed
  have b: "p1 = p2 \<and> username m1 = username m2 \<and> same"
    if eq: "cache_key m1 = cache_key m2"
      and side: "p1 = p2 \<and> (username m1 = username m2 \<or> same
                   \<or> c \<notin> set (username m1) \<and> c \<notin> set (username m2))
                 \<or> username m1 = username m2 \<and> same
                 \<or> c \<notin> set p1 \<and> c \<notin> set p2
                   \<and> c \<notin> set (username m1) \<and> c \<notin> set (username m2)"
  proof -
    from side consider
        (p) "p1 = p2" "username m1 = username m2 \<or> same
               \<or> c \<notin> set (username m1) \<and> c \<notin> set (username m2)"
      | (r) "username m1 = username m2" same
      | (n) "c \<notin> set p1" "c \<notin> set p2" "c \<notin> set (username m1)" "c \<notin> set (username m2)"
      by blast
    then show ?thesis
    proof cases
      case p
      with one_prefix [OF eq] show ?thesis by simp
    next
      case r
      with one_rest [OF eq] show ?thesis by simp
    next
      case n
      from no_colon [OF eq n(1,2)] have "p1 = p2" .
      moreover from one_prefix [OF eq this] n(3,4) have "username m1 = username m2 \<and> same"
        by simp
      ultimately show ?thesis by simp
    qed
  qed
  have d: "\<forall>k1 k2. cache_key m1 = Inr k1 \<and> cache_key m2 = Inr k2 \<and> k1 \<noteq> k2
          \<longrightarrow> fst (InMemoryTokenCache_get k2 now
                     (snd (InMemoryTokenCache_setex repr k1 ttl v t data)))
              = fst (InMemoryTokenCache_get k2 now data)"
    by (simp add: get_after_setex_other)
  from a b d show ?thesis
    unfolding same_def c_def by blast
qed

text \<open>
  C4, at two managers with one prefix, the same user name and different tenants, and at
  two managers with the same user name under different prefixes: the keys of each pair
  differ, and the token one manager stores is not what the other reads.
\<close>

theorem cache_key_namespacing_witness:
  "cache_key_prefix (cfg (example_manager example_config (lit ''alice'') (Some (lit ''acme'')) (Inl []) 0 0))
     = Inr (lit ''skribble'')
   \<and> cache_key_prefix (cfg (example_manager example_config (lit ''alice'') (Some (lit ''globex'')) (Inl []) 0 0))
     = Inr (lit ''skribble'')
   \<and> cache_key (example_manager example_config (lit ''alice'') (Some (lit ''acme'')) (Inl []) 0 0)
     = Inr (lit ''skribble:token:alice:acme'')
   \<and> cache_key (example_manager example_config (lit ''alice'') (Some (lit ''globex'')) (Inl []) 0 0)
     = Inr (lit ''skribble:token:alice:globex'')
   \<and> cache_key (example_manager example_config (lit ''alice'') (Some (lit ''acme'')) (Inl []) 0 0)
     \<noteq> cache_key (example_manager example_config (lit ''alice'') (Some (lit ''globex'')) (Inl []) 0 0)
   \<and> fst (InMemoryTokenCache_get (lit ''skribble:token:alice:globex'') 100
        (snd (InMemoryTokenCache_setex repr_unused (lit ''skribble:token:alice:acme'') 1200
               (Obj (JStr (lit ''tok-acme''))) 100 InMemoryTokenCache_init)))
     = None
   \<and> cache_key_prefix (cfg (example_manager (prefixed_config (lit ''staging'')) (lit ''alice'') None
          (Inl []) 0 0))
     = Inr (lit ''staging'')
   \<and> cache_key (example_manager (prefixed_config (lit ''staging'')) (lit ''alice'') None (Inl []) 0 0)
     = Inr (lit ''staging:token:alice'')
   \<and> cache_key (example_manager example_config (lit ''alice'') None (Inl []) 0 0)
     = Inr (lit ''skribble:token:alice'')
   \<and> cache_key (example_manager (prefixed_config (lit ''staging'')) (lit ''alice'') None (Inl []) 0 0)
     \<noteq> cache_key (example_manager example_config (lit ''alice'') None (Inl []) 0 0)"
  using cache_key_namespacing
    [of "example_manager example_config (lit ''alice'') (Some (lit ''acme'')) (Inl []) 0 0"
        "lit ''skribble''"
        "example_manager example_config (lit ''alice'') (Some (lit ''globex'')) (Inl []) 0 0"
        "lit ''skribble''"
        100 repr_unused 1200 "Obj (JStr (lit ''tok-acme''))" 100 InMemoryTokenCache_init]
    cache_key_namespacing
    [of "example_manager (prefixed_config (lit ''staging'')) (lit ''alice'') None (Inl []) 0 0"
        "lit ''staging''"
        "example_manager example_config (lit ''alice'') None (Inl []) 0 0"
        "lit ''skribble''"
        100 repr_unused 1200 "Obj (JStr (lit ''tok-acme''))" 100 InMemoryTokenCache_init]
  by (simp add: cache_key_def cache_key_prefix_example cache_key_prefix_prefixed
      example_manager_def lit_def InMemoryTokenCache_get_def InMemoryTokenCache_init_def)

section \<open>The in-memory cache\<close>

lemma setex_stores:
  "InMemoryTokenCache_setex repr key ttl val t data = (Inr (), data')
   \<Longrightarrow> \<exists>payload. data' = data(key \<mapsto> (t + real_of_int ttl, payload))
        \<and> (case val of Bytes b \<Rightarrow> Some b | Obj x \<Rightarrow> utf8_encode (py_str repr x)) = Some payload"
  by (auto simp: InMemoryTokenCache_setex_def split: option.splits)

lemma get_after_setex:
  assumes "InMemoryTokenCache_setex repr key ttl val t data = (Inr (), data')"
  shows "InMemoryTokenCache_get key now data' =
         (if t + real_of_int ttl < now then (None, data'(key := None))
          else ((case val of Bytes b \<Rightarrow> Some b | Obj x \<Rightarrow> utf8_encode (py_str repr x)), data'))"
proof -
  from setex_stores [OF assms] obtain payload
    where d: "data' = data(key \<mapsto> (t + real_of_int ttl, payload))"
      and p: "(case val of Bytes b \<Rightarrow> Some b | Obj x \<Rightarrow> utf8_encode (py_str repr x)) = Some payload"
    by blast
  show ?thesis
    unfolding p by (simp add: InMemoryTokenCache_get_def d)
qed

text \<open>
  C5, as the claim states it, fails at the expiry instant itself: \<open>get\<close> tests
  \<open>expires_at < time.time()\<close>, so an entry whose expiry instant is the current time is
  returned and kept, and an entry stored with \<open>setex(key, 0, v)\<close> is returned by a \<open>get\<close>
  whose clock reading is that of the \<open>setex\<close>.
\<close>

theorem InMemoryTokenCache_get_at_expiry:
  "InMemoryTokenCache_get (lit ''k'') 10
       (InMemoryTokenCache_init(lit ''k'' \<mapsto> (10, [0x76])))
     = (Some [0x76], InMemoryTokenCache_init(lit ''k'' \<mapsto> (10, [0x76])))
   \<and> fst (InMemoryTokenCache_get (lit ''k'') 10
            (snd (InMemoryTokenCache_setex repr_unused (lit ''k'') 0 (Bytes [0x76]) 10
                   InMemoryTokenCache_init)))
     = Some [0x76]"
  by (simp add: InMemoryTokenCache_get_def InMemoryTokenCache_setex_def)

text \<open>
  C5, amended. \<open>get\<close> returns nothing when the key is absent; when the key is present
  with an expiry instant strictly before the current time, it removes the entry and
  returns nothing; otherwise, the expiry instant being the current time or later, it
  returns the stored payload and leaves the cache as it is. An entry stored with
  \<open>setex(key, 0, v)\<close> is absent on a \<open>get\<close> whose clock reading is later than that of
  the \<open>setex\<close>, and is returned while the clock has not moved on.
\<close>

theorem InMemoryTokenCache_lazy_expiry:
  "(data key = None \<longrightarrow> InMemoryTokenCache_get key now data = (None, data))
   \<and> (\<forall>expires_at v. data key = Some (expires_at, v) \<and> expires_at < now
        \<longrightarrow> InMemoryTokenCache_get key now data = (None, data(key := None)))
   \<and> (\<forall>expires_at v. data key = Some (expires_at, v) \<and> now \<le> expires_at
        \<longrightarrow> InMemoryTokenCache_get key now data = (Some v, data))
   \<and> (\<forall>data'. InMemoryTokenCache_setex repr key 0 val t data = (Inr (), data')
        \<longrightarrow> (t < now \<longrightarrow> InMemoryTokenCache_get key now data' = (None, data'(key := None)))
          \<and> (now \<le> t \<longrightarrow> (\<exists>payload. InMemoryTokenCache_get key now data' = (Some payload, data'))))"
proof (intro conjI allI impI)
  show "InMemoryTokenCache_get key now data = (None, data)" if "data key = None"
    using that by (simp add: InMemoryTokenCache_get_def)
  show "InMemoryTokenCache_get key now data = (None, data(key := None))"
    if "data key = Some (expires_at, v) \<and> expires_at < now" for expires_at v
    using that by (simp add: InMemoryTokenCache_get_def)
  show "InMemoryTokenCache_get key now data = (Some v, data)"
    if "data key = Some (expires_at, v) \<and> now \<le> expires_at" for expires_at v
    using that by (simp add: InMemoryTokenCache_get_def)
  show "InMemoryTokenCache_get key now data' = (None, data'(key := None))"
    if "InMemoryTokenCache_setex repr key 0 val t data = (Inr (), data')" and "t < now" for data'
    using get_after_setex [OF that(1), of now] that(2) by simp
  show "\<exists>payload. InMemoryTokenCache_get key now data' = (Some payload, data')"
    if s: "InMemoryTokenCache_setex repr key 0 val t data = (Inr (), data')" and "now \<le> t" for data'
  proof -
    from setex_stores [OF s] obtain payload
      where "(case val of Bytes b \<Rightarrow> Some b | Obj x \<Rightarrow> utf8_encode (py_str repr x)) = Some payload"
      by blast
    with get_after_setex [OF s, of now] \<open>now \<le> t\<close> show ?thesis by simp
  qed
qed

text \<open>
  C5, at a cache with no entry, and at the entry \<open>setex("k", 0, b"v")\<close> stores at the
  instant 5, read at the instants 7 and 5.
\<close>

theorem InMemoryTokenCache_lazy_expiry_witness:
  "InMemoryTokenCache_init (lit ''k'') = None
   \<and> InMemoryTokenCache_get (lit ''k'') 7 InMemoryTokenCache_init = (None, InMemoryTokenCache_init)
   \<and> (InMemoryTokenCache_init(lit ''k'' \<mapsto> (5, [0x76]))) (lit ''k'') = Some (5, [0x76])
   \<and> InMemoryTokenCache_get (lit ''k'') 7 (InMemoryTokenCache_init(lit ''k'' \<mapsto> (5, [0x76])))
       = (None, (InMemoryTokenCache_init(lit ''k'' \<mapsto> (5, [0x76])))(lit ''k'' := None))
   \<and> InMemoryTokenCache_get (lit ''k'') 5 (InMemoryTokenCache_init(lit ''k'' \<mapsto> (5, [0x76])))
       = (Some [0x76], InMemoryTokenCache_init(lit ''k'' \<mapsto> (5, [0x76])))
   \<and> InMemoryTokenCache_setex repr_unused (lit ''k'') 0 (Bytes [0x76]) 5 InMemoryTokenCache_init
       = (Inr (), InMemoryTokenCache_init(lit ''k'' \<mapsto> (5, [0x76])))
   \<and> (5::real) < 7"
  using InMemoryTokenCache_lazy_expiry
    [of InMemoryTokenCache_init "lit ''k''" 7 repr_unused "Bytes [0x76]" 5]
    InMemoryTokenCache_lazy_expiry
    [of "InMemoryTokenCache_init(lit ''k'' \<mapsto> (5, [0x76]))" "lit ''k''" 7 repr_unused "Bytes [0x76]" 5]
    InMemoryTokenCache_lazy_expiry
    [of "InMemoryTokenCache_init(lit ''k'' \<mapsto> (5, [0x76]))" "lit ''k''" 5 repr_unused "Bytes [0x76]" 5]
  by (simp add: InMemoryTokenCache_init_def InMemoryTokenCache_setex_def)

section \<open>get_access_token\<close>

lemma get_access_token_force: "get_access_token repr m True w = refresh repr m w"
  by (simp add: get_access_token_def)

lemma get_access_token_miss:
  assumes "cache_key m = Inr key"
    and "get (cache m) key (cache_state w) = (Inr cached, s)"
    and "cached = None \<or> cached = Some []"
  shows "get_access_token repr m False w = refresh repr m (w\<lparr>cache_state := s\<rparr>)"
  using assms by (auto simp: get_access_token_def)

lemma get_access_token_hit:
  assumes "cache_key m = Inr key"
    and "get (cache m) key (cache_state w) = (Inr (Some b), s)"
    and "b \<noteq> []"
  shows "get_access_token repr m False w =
         ((case utf8_decode b of None \<Rightarrow> Inl UnicodeDecodeError | Some token \<Rightarrow> Inr (JStr token)),
          w\<lparr>cache_state := s\<rparr>)"
  using assms by (simp add: get_access_token_def split: option.splits)

lemma login_answer:
  "session m (login_request m) = Inr resp
   \<Longrightarrow> login repr m sent = (login_result repr resp, sent @ [login_request m])"
  by (simp add: login_def)

lemma refresh_login_error:
  assumes "session m (login_request m) = Inr resp" and "login_result repr resp = Inl e"
  shows "refresh repr m w = (Inl e, w\<lparr>requests_sent := requests_sent w @ [login_request m]\<rparr>)"
  by (simp add: refresh_def login_answer [OF assms(1)] assms(2))

lemma refresh_login_ok:
  assumes "session m (login_request m) = Inr resp" and "login_result repr resp = Inr token"
    and "cache_key m = Inr key"
    and "setex (cache m) key (access_token_ttl_seconds (cfg m)) (Obj token) (cache_state w)
         = (Inr (), s1)"
  shows "refresh repr m w =
         (Inr token, \<lparr>cache_state = s1, requests_sent = requests_sent w @ [login_request m]\<rparr>)"
  by (simp add: refresh_def login_answer [OF assms(1)] assms(2) assms(3) assms(4))

lemma get_hit_keeps_memory:
  "InMemoryTokenCache_get key now data = (Some v, data') \<Longrightarrow> data' = data"
  by (auto simp: InMemoryTokenCache_get_def split: option.splits if_splits)

text \<open>
  The fast path, for a manager whose key can be computed. With \<open>force_refresh\<close> false
  and a non-empty byte value in the cache under the key, \<open>get_access_token\<close> returns that
  value decoded as UTF-8 (and raises \<open>UnicodeDecodeError\<close> for bytes that are no UTF-8),
  sends no request, and leaves the cache in the state its \<open>get\<close> left it, without a
  \<open>setex\<close>; a \<open>get\<close> of the in-memory cache that returns a value leaves the cache
  unchanged.
\<close>

theorem get_access_token_cached:
  assumes "cache_key m = Inr key"
    and "get (cache m) key (cache_state w) = (Inr (Some b), s)"
    and "b \<noteq> []"
  shows "get_access_token repr m False w =
           ((case utf8_decode b of None \<Rightarrow> Inl UnicodeDecodeError | Some token \<Rightarrow> Inr (JStr token)),
            w\<lparr>cache_state := s\<rparr>)
         \<and> requests_sent (snd (get_access_token repr m False w)) = requests_sent w
         \<and> cache_state (snd (get_access_token repr m False w)) = s
         \<and> (\<forall>k now data v data'.
               InMemoryTokenCache_get k now data = (Some v, data') \<longrightarrow> data' = data)"
  using get_access_token_hit [OF assms] get_hit_keeps_memory by auto

text \<open>
  The fast path at a manager with \<open>example_config\<close>, whose in-memory cache holds
  \<open>b"tok123"\<close> under its key until the instant 2000, asked at the instant 1000; its
  session would fail if it were called.
\<close>

theorem get_access_token_cached_example:
  "cache_key (example_manager example_config (lit ''alice'') None (Inl (lit ''no network'')) 1000 1000)
     = Inr (lit ''skribble:token:alice'')
   \<and> get (cache (example_manager example_config (lit ''alice'') None (Inl (lit ''no network'')) 1000 1000))
        (lit ''skribble:token:alice'')
        (InMemoryTokenCache_init(lit ''skribble:token:alice'' \<mapsto> (2000, ascii_bytes ''tok123'')))
     = (Inr (Some (ascii_bytes ''tok123'')),
        InMemoryTokenCache_init(lit ''skribble:token:alice'' \<mapsto> (2000, ascii_bytes ''tok123'')))
   \<and> ascii_bytes ''tok123'' \<noteq> []
   \<and> get_access_token repr_unused
        (example_manager example_config (lit ''alice'') None (Inl (lit ''no network'')) 1000 1000)
        False
        \<lparr> cache_state =
            InMemoryTokenCache_init(lit ''skribble:token:alice'' \<mapsto> (2000, ascii_bytes ''tok123'')),
          requests_sent = [] \<rparr>
     = (Inr (JStr (lit ''tok123'')),
        \<lparr> cache_state =
            InMemoryTokenCache_init(lit ''skribble:token:alice'' \<mapsto> (2000, ascii_bytes ''tok123'')),
          requests_sent = [] \<rparr>)"
proof -
  let ?m = "example_manager example_config (lit ''alice'') None (Inl (lit ''no network'')) 1000 1000"
  let ?d = "InMemoryTokenCache_init(lit ''skribble:token:alice'' \<mapsto> (2000, ascii_bytes ''tok123''))"
  have k: "cache_key ?m = Inr (lit ''skribble:token:alice'')"
    by (simp add: cache_key_def cache_key_prefix_example example_manager_def lit_def)
  have g: "get (cache ?m) (lit ''skribble:token:alice'') (cache_state \<lparr>cache_state = ?d, requests_sent = []\<rparr>)
           = (Inr (Some (ascii_bytes ''tok123'')), ?d)"
    by (simp add: example_manager_def InMemoryTokenCache_def InMemoryTokenCache_get_def)
  have n: "ascii_bytes ''tok123'' \<noteq> []"
    by (simp add: ascii_bytes_def)
  have d: "utf8_decode (ascii_bytes ''tok123'') = Some (lit ''tok123'')"
    by (simp add: ascii_bytes_def lit_def)
  from get_access_token_cached [OF k g n, of repr_unused] k g n d show ?thesis
    by simp
qed

text \<open>
  The refresh, for a manager whose key can be computed. When the cached fast path is not
  taken, the login answers with a token and the backend accepts the write,
  \<open>get_access_token\<close> sends exactly one request, the login request, stores the token
  under the manager's key with the configured TTL (1200 seconds in the default
  configuration) and returns it. A write that the in-memory cache accepts replaces
  whatever entry the key had by the token's text in UTF-8, and until the expiry instant
  it stored a \<open>get\<close> on the key yields bytes that decode to that text.
\<close>

theorem get_access_token_refreshes:
  assumes "cache_key m = Inr key"
    and "force_refresh \<and> s0 = cache_state w
         \<or> \<not> force_refresh
           \<and> (\<exists>cached. get (cache m) key (cache_state w) = (Inr cached, s0)
                \<and> (cached = None \<or> cached = Some []))"
    and "session m (login_request m) = Inr resp"
    and "login_result repr resp = Inr token"
    and "setex (cache m) key (access_token_ttl_seconds (cfg m)) (Obj token) s0 = (Inr (), s1)"
  shows "get_access_token repr m force_refresh w =
           (Inr token, \<lparr>cache_state = s1, requests_sent = requests_sent w @ [login_request m]\<rparr>)
         \<and> access_token_ttl_seconds SkribbleConfig_default = 1200
         \<and> (\<forall>data t ttl data'.
               InMemoryTokenCache_setex repr key ttl (Obj token) t data = (Inr (), data') \<longrightarrow>
               (\<exists>expires_at bs.
                  data' = data(key \<mapsto> (expires_at, bs))
                  \<and> utf8_decode bs = Some (py_str repr token)
                  \<and> (\<forall>now \<le> expires_at.
                        InMemoryTokenCache_get key now data' = (Some bs, data'))))"
proof (intro conjI allI impI)
  let ?goal = "get_access_token repr m force_refresh w =
           (Inr token, \<lparr>cache_state = s1, requests_sent = requests_sent w @ [login_request m]\<rparr>)"
  show ?goal
  proof (cases force_refresh)
    case True
    with assms(2) have s: "s0 = cache_state w"
      by blast
    from refresh_login_ok [OF assms(3) assms(4) assms(1), of w s1] assms(5) s True
    show ?goal by (simp add: get_access_token_force)
  next
    case False
    with assms(2) obtain cached
      where g: "get (cache m) key (cache_state w) = (Inr cached, s0)"
        and c: "cached = None \<or> cached = Some []"
      by blast
    have "setex (cache m) key (access_token_ttl_seconds (cfg m)) (Obj token)
            (cache_state (w\<lparr>cache_state := s0\<rparr>)) = (Inr (), s1)"
      using assms(5) by simp
    from refresh_login_ok [OF assms(3) assms(4) assms(1) this]
      get_access_token_miss [OF assms(1) g c, of repr] False
    show ?goal by simp
  qed
  show "access_token_ttl_seconds SkribbleConfig_default = 1200"
    by (simp add: SkribbleConfig_default_def DEFAULT_ACCESS_TOKEN_TTL_SECONDS_def)
next
  fix data t ttl data'
  assume s: "InMemoryTokenCache_setex repr key ttl (Obj token) t data = (Inr (), data')"
  from setex_stores [OF s] obtain bs
    where d: "data' = data(key \<mapsto> (t + real_of_int ttl, bs))"
      and e: "utf8_encode (py_str repr token) = Some bs"
    by auto
  have "utf8_decode bs = Some (py_str repr token)"
    using e by (rule utf8_decode_encode)
  moreover have "\<forall>now \<le> t + real_of_int ttl.
                   InMemoryTokenCache_get key now data' = (Some bs, data')"
    by (simp add: InMemoryTokenCache_get_def d)
  ultimately show "\<exists>expires_at bs.
                     data' = data(key \<mapsto> (expires_at, bs))
                     \<and> utf8_decode bs = Some (py_str repr token)
                     \<and> (\<forall>now \<le> expires_at.
                           InMemoryTokenCache_get key now data' = (Some bs, data'))"
    using d by blast
qed

section \<open>The login exchange\<close>

lemma contains_json [simp]: "contains (lit ''application/json'') (lit ''application/json'')"
  by (simp add: lit_def)

lemma login_result_object:
  assumes "status_code resp = 200" and "content_type resp = Some ct"
    and "contains (lit ''application/json'') ct" and "json_body resp = Some (JObj kvs)"
  shows "login_result repr resp =
         (if truthy (dict_get kvs (lit ''access_token'')) then Inr (dict_get kvs (lit ''access_token''))
          else if truthy (dict_get kvs (lit ''token'')) then Inr (dict_get kvs (lit ''token''))
          else if truthy (dict_get kvs (lit ''jwt'')) then Inr (dict_get kvs (lit ''jwt''))
          else if truthy (dict_get kvs (lit ''AUTH_ACCESS_TOKEN''))
            then Inr (dict_get kvs (lit ''AUTH_ACCESS_TOKEN''))
          else Inl (SkribbleAuthError
                 (lit ''Login succeeded but no access token found in response JSON.'')))"
  using assms by (simp add: login_result_def token_fields_def py_or_def)

lemma login_result_not_object:
  assumes "status_code resp = 200" and "content_type resp = Some ct"
    and "contains (lit ''application/json'') ct" and "json_body resp = Some data"
    and "\<forall>kvs. data \<noteq> JObj kvs"
  shows "login_result repr resp = Inl (AttributeError ''get'')"
  using assms by (cases data) (simp_all add: login_result_def token_fields_def)

lemma login_result_no_json:
  assumes "status_code resp = 200" and "content_type resp = Some ct"
    and "contains (lit ''application/json'') ct" and "json_body resp = None"
  shows "login_result repr resp = Inl JSONDecodeError"
  using assms by (simp add: login_result_def)

text \<open>
  C6. For a 200 response with a JSON content type whose body is an object, the token is
  the value of the first of \<open>access_token\<close>, \<open>token\<close>, \<open>jwt\<close>, \<open>AUTH_ACCESS_TOKEN\<close>, in
  this order, that the chain of \<open>or\<close> accepts, and the login fails when there is none;
  a body with \<open>"token": "a"\<close> and \<open>"access_token": "b"\<close> gives the token \<open>b\<close>.
\<close>

theorem login_result_priority:
  assumes "status_code resp = 200" and "content_type resp = Some ct"
    and "contains (lit ''application/json'') ct" and "json_body resp = Some (JObj kvs)"
  shows "login_result repr resp =
           (case find truthy
                   (map (dict_get kvs)
                      [lit ''access_token'', lit ''token'', lit ''jwt'', lit ''AUTH_ACCESS_TOKEN''])
            of Some token \<Rightarrow> Inr token
             | None \<Rightarrow> Inl (SkribbleAuthError
                 (lit ''Login succeeded but no access token found in response JSON.'')))
         \<and> login_result repr
             (json_response 200 txt
                (JObj [(lit ''token'', JStr (lit ''a'')), (lit ''access_token'', JStr (lit ''b''))]))
           = Inr (JStr (lit ''b''))"
proof
  show "login_result repr resp =
           (case find truthy
                   (map (dict_get kvs)
                      [lit ''access_token'', lit ''token'', lit ''jwt'', lit ''AUTH_ACCESS_TOKEN''])
            of Some token \<Rightarrow> Inr token
             | None \<Rightarrow> Inl (SkribbleAuthError
                 (lit ''Login succeeded but no access token found in response JSON.'')))"
    by (simp add: login_result_object [OF assms])
  show "login_result repr
             (json_response 200 txt
                (JObj [(lit ''token'', JStr (lit ''a'')), (lit ''access_token'', JStr (lit ''b''))]))
           = Inr (JStr (lit ''b''))"
    by (simp add: login_result_def token_fields_def py_or_def json_response_def dict_get_def
        lit_def)
qed

text \<open>
  C6, at the response \<open>{"token": "a", "access_token": "b"}\<close> with status 200.
\<close>

theorem login_result_priority_witness:
  \<open>status_code (json_response 200 (lit ''{"token": "a", "access_token": "b"}'')
      (JObj [(lit ''token'', JStr (lit ''a'')), (lit ''access_token'', JStr (lit ''b''))])) = 200
   \<and> content_type (json_response 200 (lit ''{"token": "a", "access_token": "b"}'')
      (JObj [(lit ''token'', JStr (lit ''a'')), (lit ''access_token'', JStr (lit ''b''))]))
     = Some (lit ''application/json'')
   \<and> contains (lit ''application/json'') (lit ''application/json'')
   \<and> json_body (json_response 200 (lit ''{"token": "a", "access_token": "b"}'')
      (JObj [(lit ''token'', JStr (lit ''a'')), (lit ''access_token'', JStr (lit ''b''))]))
     = Some (JObj [(lit ''token'', JStr (lit ''a'')), (lit ''access_token'', JStr (lit ''b''))])
   \<and> find truthy (map (dict_get
          [(lit ''token'', JStr (lit ''a'')), (lit ''access_token'', JStr (lit ''b''))])
          [lit ''access_token'', lit ''token'', lit ''jwt'', lit ''AUTH_ACCESS_TOKEN''])
     = Some (JStr (lit ''b''))
   \<and> login_result repr_unused (json_response 200 (lit ''{"token": "a", "access_token": "b"}'')
      (JObj [(lit ''token'', JStr (lit ''a'')), (lit ''access_token'', JStr (lit ''b''))]))
     = Inr (JStr (lit ''b''))\<close>
proof -
  let ?r = \<open>json_response 200 (lit ''{"token": "a", "access_token": "b"}'')
      (JObj [(lit ''token'', JStr (lit ''a'')), (lit ''access_token'', JStr (lit ''b''))])\<close>
  have s: "status_code ?r = 200"
    and c: "content_type ?r = Some (lit ''application/json'')"
    and j: "json_body ?r
            = Some (JObj [(lit ''token'', JStr (lit ''a'')), (lit ''access_token'', JStr (lit ''b''))])"
    by (simp_all add: json_response_def)
  have f: "find truthy (map (dict_get
          [(lit ''token'', JStr (lit ''a'')), (lit ''access_token'', JStr (lit ''b''))])
          [lit ''access_token'', lit ''token'', lit ''jwt'', lit ''AUTH_ACCESS_TOKEN''])
     = Some (JStr (lit ''b''))"
    by (simp add: dict_get_def lit_def)
  from login_result_priority [OF s c contains_json j, of repr_unused] s c j f show ?thesis
    by simp
qed

text \<open>
  C10, as the claim states it, fails where a third field of higher priority holds a
  token: in \<open>{"access_token": "x", "token": "", "jwt": "j"}\<close> the field \<open>token\<close> is
  present and empty and the lower field \<open>jwt\<close> holds \<open>j\<close>, and the login returns the
  \<open>x\<close> of \<open>access_token\<close>, not the value \<open>j\<close> of the lower field.
\<close>

theorem login_result_higher_field_wins:
  \<open>map_of [(lit ''access_token'', JStr (lit ''x'')), (lit ''token'', JStr []),
            (lit ''jwt'', JStr (lit ''j''))] (lit ''token'')
     = Some (JStr [])
   \<and> map_of [(lit ''access_token'', JStr (lit ''x'')), (lit ''token'', JStr []),
              (lit ''jwt'', JStr (lit ''j''))] (lit ''jwt'')
     = Some (JStr (lit ''j''))
   \<and> lit ''j'' \<noteq> []
   \<and> login_result repr_unused
        (json_response 200 (lit ''{"access_token": "x", "token": "", "jwt": "j"}'')
           (JObj [(lit ''access_token'', JStr (lit ''x'')), (lit ''token'', JStr []),
                  (lit ''jwt'', JStr (lit ''j''))]))
     = Inr (JStr (lit ''x''))
   \<and> login_result repr_unused
        (json_response 200 (lit ''{"access_token": "x", "token": "", "jwt": "j"}'')
           (JObj [(lit ''access_token'', JStr (lit ''x'')), (lit ''token'', JStr []),
                  (lit ''jwt'', JStr (lit ''j''))]))
     \<noteq> Inr (JStr (lit ''j''))\<close>
  by (simp add: login_result_def token_fields_def py_or_def json_response_def dict_get_def
      lit_def)

text \<open>
  C10, amended. For a 200 response with a JSON content type whose body is an object: when
  a field of the priority order holds a non-empty string and every field before it in
  the order is absent or holds a value that counts as false, such as the empty string,
  the login returns that field's value. A field that is present and empty is passed over.
\<close>

theorem login_result_skips_empty:
  assumes "status_code resp = 200" and "content_type resp = Some ct"
    and "contains (lit ''application/json'') ct" and "json_body resp = Some (JObj kvs)"
    and "j < 4"
    and "dict_get kvs ([lit ''access_token'', lit ''token'', lit ''jwt'', lit ''AUTH_ACCESS_TOKEN''] ! j)
         = JStr s"
    and "s \<noteq> []"
    and "\<forall>i<j. \<not> truthy (dict_get kvs
           ([lit ''access_token'', lit ''token'', lit ''jwt'', lit ''AUTH_ACCESS_TOKEN''] ! i))"
  shows "login_result repr resp = Inr (JStr s)"
proof -
  from assms(5) consider "j = 0" | "j = 1" | "j = 2" | "j = 3"
    by linarith
  then show ?thesis
  proof cases
    case 1
    with assms(6,7) show ?thesis
      by (simp add: login_result_object [OF assms(1-4)])
  next
    case 2
    with assms(8) have "\<not> truthy (dict_get kvs (lit ''access_token''))"
      by simp
    with 2 assms(6,7) show ?thesis
      by (simp add: login_result_object [OF assms(1-4)])
  next
    case 3
    with assms(8) have "\<not> truthy (dict_get kvs (lit ''access_token''))"
      and "\<not> truthy (dict_get kvs (lit ''token''))"
      by (auto dest: spec [of _ 0] spec [of _ 1])
    with 3 assms(6,7) show ?thesis
      by (simp add: login_result_object [OF assms(1-4)])
  next
    case 4
    with assms(8) have "\<not> truthy (dict_get kvs (lit ''access_token''))"
      and "\<not> truthy (dict_get kvs (lit ''token''))"
      and "\<not> truthy (dict_get kvs (lit ''jwt''))"
      by (auto dest: spec [of _ 0] spec [of _ 1] spec [of _ 2])
    with 4 assms(6,7) show ?thesis
      by (simp add: login_result_object [OF assms(1-4)])
  qed
qed

text \<open>
  C10, at the response \<open>{"access_token": "", "token": "t0k"}\<close> with status 200: the
  field \<open>access_token\<close> is present and empty, and the login returns the value of \<open>token\<close>.
\<close>

theorem login_result_skips_empty_witness:
  \<open>status_code (json_response 200 (lit ''{"access_token": "", "token": "t0k"}'')
      (JObj [(lit ''access_token'', JStr []), (lit ''token'', JStr (lit ''t0k''))])) = 200
   \<and> content_type (json_response 200 (lit ''{"access_token": "", "token": "t0k"}'')
      (JObj [(lit ''access_token'', JStr []), (lit ''token'', JStr (lit ''t0k''))]))
     = Some (lit ''application/json'')
   \<and> contains (lit ''application/json'') (lit ''application/json'')
   \<and> json_body (json_response 200 (lit ''{"access_token": "", "token": "t0k"}'')
      (JObj [(lit ''access_token'', JStr []), (lit ''token'', JStr (lit ''t0k''))]))
     = Some (JObj [(lit ''access_token'', JStr []), (lit ''token'', JStr (lit ''t0k''))])
   \<and> (1::nat) < 4
   \<and> map_of [(lit ''access_token'', JStr []), (lit ''token'', JStr (lit ''t0k''))]
        (lit ''access_token'') = Some (JStr [])
   \<and> dict_get [(lit ''access_token'', JStr []), (lit ''token'', JStr (lit ''t0k''))]
        ([lit ''access_token'', lit ''token'', lit ''jwt'', lit ''AUTH_ACCESS_TOKEN''] ! 1)
      = JStr (lit ''t0k'')
   \<and> lit ''t0k'' \<noteq> []
   \<and> \<not> truthy (dict_get [(lit ''access_token'', JStr []), (lit ''token'', JStr (lit ''t0k''))]
        ([lit ''access_token'', lit ''token'', lit ''jwt'', lit ''AUTH_ACCESS_TOKEN''] ! 0))
   \<and> login_result repr_unused (json_response 200 (lit ''{"access_token": "", "token": "t0k"}'')
      (JObj [(lit ''access_token'', JStr []), (lit ''token'', JStr (lit ''t0k''))]))
     = Inr (JStr (lit ''t0k''))\<close>
proof -
  let ?kvs = "[(lit ''access_token'', JStr []), (lit ''token'', JStr (lit ''t0k''))]"
  let ?r = \<open>json_response 200 (lit ''{"access_token": "", "token": "t0k"}'') (JObj ?kvs)\<close>
  let ?names = "[lit ''access_token'', lit ''token'', lit ''jwt'', lit ''AUTH_ACCESS_TOKEN'']"
  have s: "status_code ?r = 200"
    and c: "content_type ?r = Some (lit ''application/json'')"
    and j: "json_body ?r = Some (JObj ?kvs)"
    by (simp_all add: json_response_def)
  have p: "map_of ?kvs (lit ''access_token'') = Some (JStr [])"
    by simp
  have g: "dict_get ?kvs (?names ! 1) = JStr (lit ''t0k'')"
    by (simp add: dict_get_def lit_def)
  have n: "lit ''t0k'' \<noteq> []"
    by (simp add: lit_def)
  have e: "\<not> truthy (dict_get ?kvs (?names ! 0))"
    by (simp add: dict_get_def)
  have b: "\<forall>i<1. \<not> truthy (dict_get ?kvs (?names ! i))"
    using e by simp
  have l: "(1::nat) < 4"
    by simp
  from login_result_skips_empty [OF s c contains_json j l g n b, of repr_unused] s c j p g n e
  show ?thesis
    by simp
qed

text \<open>
  The refresh at a manager with \<open>example_config\<close> and an empty in-memory cache, whose
  login is answered by \<open>{"access_token": "tok123"}\<close> with status 200; the \<open>get\<close> reads
  the clock at 1000, the \<open>setex\<close> at 1001, and a later \<open>get\<close> at 1500.
\<close>

theorem get_access_token_refreshes_example:
  \<open>cache_key (example_manager example_config (lit ''alice'') None
        (Inr (json_response 200 (lit ''{"access_token": "tok123"}'')
               (JObj [(lit ''access_token'', JStr (lit ''tok123''))]))) 1000 1001)
     = Inr (lit ''skribble:token:alice'')
   \<and> get (cache (example_manager example_config (lit ''alice'') None
        (Inr (json_response 200 (lit ''{"access_token": "tok123"}'')
               (JObj [(lit ''access_token'', JStr (lit ''tok123''))]))) 1000 1001))
        (lit ''skribble:token:alice'') InMemoryTokenCache_init
     = (Inr None, InMemoryTokenCache_init)
   \<and> login_result repr_unused (json_response 200 (lit ''{"access_token": "tok123"}'')
               (JObj [(lit ''access_token'', JStr (lit ''tok123''))]))
     = Inr (JStr (lit ''tok123''))
   \<and> get_access_token repr_unused
        (example_manager example_config (lit ''alice'') None
          (Inr (json_response 200 (lit ''{"access_token": "tok123"}'')
                 (JObj [(lit ''access_token'', JStr (lit ''tok123''))]))) 1000 1001)
        False \<lparr>cache_state = InMemoryTokenCache_init, requests_sent = []\<rparr>
     = (Inr (JStr (lit ''tok123'')),
        \<lparr>cache_state =
           InMemoryTokenCache_init(lit ''skribble:token:alice'' \<mapsto> (2201, ascii_bytes ''tok123'')),
         requests_sent =
           [login_request (example_manager example_config (lit ''alice'') None
              (Inr (json_response 200 (lit ''{"access_token": "tok123"}'')
                     (JObj [(lit ''access_token'', JStr (lit ''tok123''))]))) 1000 1001)]\<rparr>)
   \<and> InMemoryTokenCache_get (lit ''skribble:token:alice'') 1500
        (InMemoryTokenCache_init(lit ''skribble:token:alice'' \<mapsto> (2201, ascii_bytes ''tok123'')))
     = (Some (ascii_bytes ''tok123''),
        InMemoryTokenCache_init(lit ''skribble:token:alice'' \<mapsto> (2201, ascii_bytes ''tok123'')))
   \<and> utf8_decode (ascii_bytes ''tok123'') = Some (lit ''tok123'')\<close>
proof -
  let ?r = \<open>json_response 200 (lit ''{"access_token": "tok123"}'')
               (JObj [(lit ''access_token'', JStr (lit ''tok123''))])\<close>
  let ?m = "example_manager example_config (lit ''alice'') None (Inr ?r) 1000 1001"
  let ?w = "\<lparr>cache_state = InMemoryTokenCache_init, requests_sent = []\<rparr>"
  let ?d = "InMemoryTokenCache_init(lit ''skribble:token:alice'' \<mapsto> (2201, ascii_bytes ''tok123''))"
  have k: "cache_key ?m = Inr (lit ''skribble:token:alice'')"
    by (simp add: cache_key_def cache_key_prefix_example example_manager_def lit_def)
  have g: "get (cache ?m) (lit ''skribble:token:alice'') InMemoryTokenCache_init
           = (Inr None, InMemoryTokenCache_init)"
    by (simp add: example_manager_def InMemoryTokenCache_def InMemoryTokenCache_get_def
        InMemoryTokenCache_init_def)
  have p: "False \<and> InMemoryTokenCache_init = cache_state ?w
           \<or> \<not> False \<and> (\<exists>cached. get (cache ?m) (lit ''skribble:token:alice'') (cache_state ?w)
                  = (Inr cached, InMemoryTokenCache_init) \<and> (cached = None \<or> cached = Some []))"
    using g by simp
  have a: "session ?m (login_request ?m) = Inr ?r"
    by (simp add: example_manager_def)
  have l: "login_result repr_unused ?r = Inr (JStr (lit ''tok123''))"
    by (simp add: login_result_def token_fields_def py_or_def json_response_def dict_get_def
        lit_def)
  have e: "utf8_encode (lit ''tok123'') = Some (ascii_bytes ''tok123'')"
    by (simp add: utf8_encode_char_def lit_def ascii_bytes_def)
  have t: "access_token_ttl_seconds (cfg ?m) = 1200"
    by (simp add: example_manager_def example_config_def SkribbleConfig_default_def
        DEFAULT_ACCESS_TOKEN_TTL_SECONDS_def)
  have s: "setex (cache ?m) (lit ''skribble:token:alice'') (access_token_ttl_seconds (cfg ?m))
             (Obj (JStr (lit ''tok123''))) InMemoryTokenCache_init = (Inr (), ?d)"
    unfolding t
    by (simp add: example_manager_def InMemoryTokenCache_def InMemoryTokenCache_setex_def
        py_str_def e)
  have x: "py_str repr_unused (JStr (lit ''tok123'')) = lit ''tok123''"
    by (simp add: py_str_def)
  have q: "InMemoryTokenCache_get (lit ''skribble:token:alice'') 1500 ?d
           = (Some (ascii_bytes ''tok123''), ?d)"
    by (simp add: InMemoryTokenCache_get_def)
  have u: "utf8_decode (ascii_bytes ''tok123'') = Some (lit ''tok123'')"
    using e by (rule utf8_decode_encode)
  from get_access_token_refreshes [OF k p a l s, THEN conjunct1] k g l q u show ?thesis
    by simp
qed

text \<open>
  C7. A 200 response with a JSON content type whose body is the JSON string \<open>"tok123"\<close>
  is to give the token \<open>tok123\<close>. The chain of lines 144-149 calls \<open>data.get\<close> before
  line 152 asks whether \<open>data\<close> is a str, and a str has no \<open>get\<close>: \<open>_login\<close> raises
  \<open>AttributeError\<close>, and so does \<open>get_access_token\<close>, without writing to the cache.
\<close>

theorem login_result_json_string:
  \<open>login_result repr (json_response 200 (lit ''"tok123"'') (JStr (lit ''tok123'')))
     = Inl (AttributeError ''get'')
   \<and> get_access_token repr
        (example_manager SkribbleConfig_default (lit ''alice'') None
          (Inr (json_response 200 (lit ''"tok123"'') (JStr (lit ''tok123'')))) 1000 1001)
        True \<lparr>cache_state = InMemoryTokenCache_init, requests_sent = []\<rparr>
     = (Inl (AttributeError ''get''),
        \<lparr>cache_state = InMemoryTokenCache_init,
         requests_sent =
           [login_request (example_manager SkribbleConfig_default (lit ''alice'') None
              (Inr (json_response 200 (lit ''"tok123"'') (JStr (lit ''tok123'')))) 1000 1001)]\<rparr>)\<close>
proof -
  let ?r = \<open>json_response 200 (lit ''"tok123"'') (JStr (lit ''tok123''))\<close>
  let ?m = "example_manager SkribbleConfig_default (lit ''alice'') None (Inr ?r) 1000 1001"
  have l: "login_result repr ?r = Inl (AttributeError ''get'')"
    by (rule login_result_not_object
          [where ct = "lit ''application/json''" and data = "JStr (lit ''tok123'')"])
       (simp_all add: json_response_def)
  have a: "session ?m (login_request ?m) = Inr ?r"
    by (simp add: example_manager_def)
  from refresh_login_error [OF a l] l show ?thesis
    by (simp add: get_access_token_force)
qed

text \<open>
  C9. Every 200 response from which no token can be extracted is to end in an
  \<open>AuthError\<close>. With a JSON content type and the body \<open>[]\<close> or \<open>null\<close>, \<open>_login\<close> raises
  \<open>AttributeError\<close> at the first \<open>data.get\<close>; with a body that is no JSON, the
  \<open>JSONDecodeError\<close> of \<open>resp.json()\<close> is not caught on this path. In each case
  \<open>get_access_token\<close> raises the same exception.
\<close>

theorem login_result_no_token:
  \<open>login_result repr (json_response 200 (lit ''[]'') (JArr [])) = Inl (AttributeError ''get'')
   \<and> login_result repr (json_response 200 (lit ''null'') JNull) = Inl (AttributeError ''get'')
   \<and> login_result repr
        \<lparr>status_code = 200, content_type = Some (lit ''application/json''),
         body_text = lit ''<html>'', json_body = None\<rparr>
     = Inl JSONDecodeError
   \<and> get_access_token repr
        (example_manager SkribbleConfig_default (lit ''alice'') None
          (Inr (json_response 200 (lit ''[]'') (JArr []))) 1000 1001)
        True \<lparr>cache_state = InMemoryTokenCache_init, requests_sent = []\<rparr>
     = (Inl (AttributeError ''get''),
        \<lparr>cache_state = InMemoryTokenCache_init,
         requests_sent =
           [login_request (example_manager SkribbleConfig_default (lit ''alice'') None
              (Inr (json_response 200 (lit ''[]'') (JArr []))) 1000 1001)]\<rparr>)\<close>
proof -
  let ?r = \<open>json_response 200 (lit ''[]'') (JArr [])\<close>
  let ?m = "example_manager SkribbleConfig_default (lit ''alice'') None (Inr ?r) 1000 1001"
  have l: "login_result repr ?r = Inl (AttributeError ''get'')"
    by (rule login_result_not_object [where ct = "lit ''application/json''" and data = "JArr []"])
       (simp_all add: json_response_def)
  have n: "login_result repr (json_response 200 (lit ''null'') JNull) = Inl (AttributeError ''get'')"
    by (rule login_result_not_object [where ct = "lit ''application/json''" and data = JNull])
       (simp_all add: json_response_def)
  have d: "login_result repr
        \<lparr>status_code = 200, content_type = Some (lit ''application/json''),
         body_text = lit ''<html>'', json_body = None\<rparr>
     = Inl JSONDecodeError"
    by (rule login_result_no_json [where ct = "lit ''application/json''"]) simp_all
  have a: "session ?m (login_request ?m) = Inr ?r"
    by (simp add: example_manager_def)
  from refresh_login_error [OF a l] l n d show ?thesis
    by (simp add: get_access_token_force)
qed

lemma py_str_JStr [simp]: "py_str repr (JStr s) = s"
  by (simp add: py_str_def)

lemma login_result_failure:
  assumes "status_code resp \<noteq> 200"
    and "json_body resp = None \<or> (\<exists>kvs. json_body resp = Some (JObj kvs))"
  shows "login_result repr resp =
         Inl (SkribbleHTTPError (status_code resp)
               (lit ''Login failed: '' @
                  (case json_body resp of
                     Some (JObj kvs) \<Rightarrow>
                       if truthy (dict_get kvs (lit ''message''))
                       then py_str repr (dict_get kvs (lit ''message''))
                       else if truthy (dict_get kvs (lit ''error''))
                       then py_str repr (dict_get kvs (lit ''error''))
                       else body_text resp
                   | _ \<Rightarrow> body_text resp))
               (json_body resp) (body_text resp))"
  using assms
  by (auto simp: login_result_def error_message_def py_or_def Let_def)

text \<open>
  C8, as the claim states it, fails where the field \<open>message\<close> is present and empty:
  \<open>or\<close> passes it over, and the message is built from \<open>error\<close>. And a body that is
  JSON but no object, as \<open>[]\<close>, ends in the \<open>AttributeError\<close> of \<open>data.get\<close>, which
  \<open>except json.JSONDecodeError\<close> does not catch, and in no HTTP error.
\<close>

theorem login_result_failure_message:
  \<open>login_result repr_unused
       (json_response 401 (lit ''{"message": "", "error": "boom"}'')
          (JObj [(lit ''message'', JStr []), (lit ''error'', JStr (lit ''boom''))]))
     = Inl (SkribbleHTTPError 401 (lit ''Login failed: boom'')
             (Some (JObj [(lit ''message'', JStr []), (lit ''error'', JStr (lit ''boom''))]))
             (lit ''{"message": "", "error": "boom"}''))
   \<and> login_result repr_unused (json_response 500 (lit ''[]'') (JArr []))
     = Inl (AttributeError ''get'')\<close>
  by (simp add: login_result_def error_message_def py_or_def py_str_def json_response_def
      dict_get_def lit_def)

text \<open>
  C8, amended. For every login response with a status code other than 200 whose body is
  no JSON or is a JSON object, \<open>_login\<close> fails with an HTTP error that carries the status
  code, the parsed body (none for a body that is no JSON) and the text, and the message
  \<open>Login failed: \<close> followed by the value of \<open>message\<close> when that is true, else by the
  value of \<open>error\<close> when that is true, else by the text of the response.
  \<open>get_access_token\<close> fails with this error whenever it reaches the login (on a forced
  refresh, or on a miss under the manager's key), having sent the one request and
  written nothing to the cache.
\<close>

theorem get_access_token_login_failure:
  assumes "session m (login_request m) = Inr resp"
    and "status_code resp \<noteq> 200"
    and "json_body resp = None \<or> (\<exists>kvs. json_body resp = Some (JObj kvs))"
    and "err = SkribbleHTTPError (status_code resp)
               (lit ''Login failed: '' @
                  (case json_body resp of
                     Some (JObj kvs) \<Rightarrow>
                       if truthy (dict_get kvs (lit ''message''))
                       then py_str repr (dict_get kvs (lit ''message''))
                       else if truthy (dict_get kvs (lit ''error''))
                       then py_str repr (dict_get kvs (lit ''error''))
                       else body_text resp
                   | _ \<Rightarrow> body_text resp))
               (json_body resp) (body_text resp)"
  shows "login_result repr resp = Inl err
         \<and> get_access_token repr m True w
           = (Inl err, w\<lparr>requests_sent := requests_sent w @ [login_request m]\<rparr>)
         \<and> (\<forall>key cached s.
              cache_key m = Inr key \<and> get (cache m) key (cache_state w) = (Inr cached, s)
              \<and> (cached = None \<or> cached = Some [])
              \<longrightarrow> get_access_token repr m False w
                  = (Inl err, \<lparr>cache_state = s,
                              requests_sent = requests_sent w @ [login_request m]\<rparr>))"
proof (intro conjI allI impI)
  show l: "login_result repr resp = Inl err"
    unfolding assms(4) by (rule login_result_failure [OF assms(2,3)])
  show "get_access_token repr m True w
        = (Inl err, w\<lparr>requests_sent := requests_sent w @ [login_request m]\<rparr>)"
    by (simp add: get_access_token_force refresh_login_error [OF assms(1) l])
  show "get_access_token repr m False w
        = (Inl err, \<lparr>cache_state = s, requests_sent = requests_sent w @ [login_request m]\<rparr>)"
    if h: "cache_key m = Inr key \<and> get (cache m) key (cache_state w) = (Inr cached, s)
           \<and> (cached = None \<or> cached = Some [])"
    for key cached s
  proof -
    from h have k: "cache_key m = Inr key"
      and g: "get (cache m) key (cache_state w) = (Inr cached, s)"
      and c: "cached = None \<or> cached = Some []"
      by simp_all
    show ?thesis
      by (simp add: get_access_token_miss [OF k g c] refresh_login_error [OF assms(1) l])
  qed
qed

text \<open>
  C8, at the response \<open>{"message": "bad credentials"}\<close> with status 401, given to a
  manager with an empty in-memory cache: status 401 and the message
  \<open>Login failed: bad credentials\<close>, on a forced refresh and on a miss.
\<close>

theorem get_access_token_login_failure_witness:
  \<open>session (example_manager example_config (lit ''alice'') None
        (Inr (json_response 401 (lit ''{"message": "bad credentials"}'')
               (JObj [(lit ''message'', JStr (lit ''bad credentials''))]))) 1000 1001)
      (login_request (example_manager example_config (lit ''alice'') None
        (Inr (json_response 401 (lit ''{"message": "bad credentials"}'')
               (JObj [(lit ''message'', JStr (lit ''bad credentials''))]))) 1000 1001))
     = Inr (json_response 401 (lit ''{"message": "bad credentials"}'')
               (JObj [(lit ''message'', JStr (lit ''bad credentials''))]))
   \<and> status_code (json_response 401 (lit ''{"message": "bad credentials"}'')
               (JObj [(lit ''message'', JStr (lit ''bad credentials''))])) \<noteq> 200
   \<and> json_body (json_response 401 (lit ''{"message": "bad credentials"}'')
               (JObj [(lit ''message'', JStr (lit ''bad credentials''))]))
     = Some (JObj [(lit ''message'', JStr (lit ''bad credentials''))])
   \<and> cache_key (example_manager example_config (lit ''alice'') None
        (Inr (json_response 401 (lit ''{"message": "bad credentials"}'')
               (JObj [(lit ''message'', JStr (lit ''bad credentials''))]))) 1000 1001)
     = Inr (lit ''skribble:token:alice'')
   \<and> get (cache (example_manager example_config (lit ''alice'') None
        (Inr (json_response 401 (lit ''{"message": "bad credentials"}'')
               (JObj [(lit ''message'', JStr (lit ''bad credentials''))]))) 1000 1001))
        (lit ''skribble:token:alice'') InMemoryTokenCache_init
     = (Inr None, InMemoryTokenCache_init)
   \<and> login_result repr_unused (json_response 401 (lit ''{"message": "bad credentials"}'')
               (JObj [(lit ''message'', JStr (lit ''bad credentials''))]))
     = Inl (SkribbleHTTPError 401 (lit ''Login failed: bad credentials'')
             (Some (JObj [(lit ''message'', JStr (lit ''bad credentials''))]))
             (lit ''{"message": "bad credentials"}''))
   \<and> get_access_token repr_unused
        (example_manager example_config (lit ''alice'') None
          (Inr (json_response 401 (lit ''{"message": "bad credentials"}'')
                 (JObj [(lit ''message'', JStr (lit ''bad credentials''))]))) 1000 1001)
        True \<lparr>cache_state = InMemoryTokenCache_init, requests_sent = []\<rparr>
     = (Inl (SkribbleHTTPError 401 (lit ''Login failed: bad credentials'')
             (Some (JObj [(lit ''message'', JStr (lit ''bad credentials''))]))
             (lit ''{"message": "bad credentials"}'')),
        \<lparr>cache_state = InMemoryTokenCache_init,
         requests_sent =
           [login_request (example_manager example_config (lit ''alice'') None
              (Inr (json_response 401 (lit ''{"message": "bad credentials"}'')
                     (JObj [(lit ''message'', JStr (lit ''bad credentials''))]))) 1000 1001)]\<rparr>)
   \<and> get_access_token repr_unused
        (example_manager example_config (lit ''alice'') None
          (Inr (json_response 401 (lit ''{"message": "bad credentials"}'')
                 (JObj [(lit ''message'', JStr (lit ''bad credentials''))]))) 1000 1001)
        False \<lparr>cache_state = InMemoryTokenCache_init, requests_sent = []\<rparr>
     = (Inl (SkribbleHTTPError 401 (lit ''Login failed: bad credentials'')
             (Some (JObj [(lit ''message'', JStr (lit ''bad credentials''))]))
             (lit ''{"message": "bad credentials"}'')),
        \<lparr>cache_state = InMemoryTokenCache_init,
         requests_sent =
           [login_request (example_manager example_config (lit ''alice'') None
              (Inr (json_response 401 (lit ''{"message": "bad credentials"}'')
                     (JObj [(lit ''message'', JStr (lit ''bad credentials''))]))) 1000 1001)]\<rparr>)\<close>
proof -
  let ?kvs = "[(lit ''message'', JStr (lit ''bad credentials''))]"
  let ?txt = \<open>lit ''{"message": "bad credentials"}''\<close>
  let ?r = "json_response 401 ?txt (JObj ?kvs)"
  let ?m = "example_manager example_config (lit ''alice'') None (Inr ?r) 1000 1001"
  let ?w = "\<lparr>cache_state = InMemoryTokenCache_init, requests_sent = []\<rparr>"
  let ?e = "SkribbleHTTPError 401 (lit ''Login failed: bad credentials'') (Some (JObj ?kvs)) ?txt"
  have a: "session ?m (login_request ?m) = Inr ?r"
    by (simp add: example_manager_def)
  have s: "status_code ?r \<noteq> 200"
    by (simp add: json_response_def)
  have j: "json_body ?r = Some (JObj ?kvs)"
    by (simp add: json_response_def)
  then have j': "json_body ?r = None \<or> (\<exists>kvs. json_body ?r = Some (JObj kvs))"
    by simp
  have e: "?e = SkribbleHTTPError (status_code ?r)
               (lit ''Login failed: '' @
                  (case json_body ?r of
                     Some (JObj kvs) \<Rightarrow>
                       if truthy (dict_get kvs (lit ''message''))
                       then py_str repr_unused (dict_get kvs (lit ''message''))
                       else if truthy (dict_get kvs (lit ''error''))
                       then py_str repr_unused (dict_get kvs (lit ''error''))
                       else body_text ?r
                   | _ \<Rightarrow> body_text ?r))
               (json_body ?r) (body_text ?r)"
    by (simp add: json_response_def dict_get_def py_str_def lit_def)
  have k: "cache_key ?m = Inr (lit ''skribble:token:alice'')"
    by (simp add: cache_key_def cache_key_prefix_example example_manager_def lit_def)
  have g: "get (cache ?m) (lit ''skribble:token:alice'') (cache_state ?w)
           = (Inr None, InMemoryTokenCache_init)"
    by (simp add: example_manager_def InMemoryTokenCache_def InMemoryTokenCache_get_def
        InMemoryTokenCache_init_def)
  note t = get_access_token_login_failure [OF a s j' e, of ?w]
  from t have 1: "login_result repr_unused ?r = Inl ?e"
    and 2: "get_access_token repr_unused ?m True ?w
            = (Inl ?e, ?w\<lparr>requests_sent := requests_sent ?w @ [login_request ?m]\<rparr>)"
    by blast+
  from t k g have 3: "get_access_token repr_unused ?m False ?w
            = (Inl ?e, \<lparr>cache_state = InMemoryTokenCache_init,
                        requests_sent = requests_sent ?w @ [login_request ?m]\<rparr>)"
    by blast
  from a s j k g 1 2 3 show ?thesis
    by simp
qed

section \<open>Other outcomes of a 200 response\<close>

text \<open>
  Without a JSON content type the token is the text of the response, stripped; an empty
  one is refused with the \<open>AuthError\<close> of line 161.
\<close>

lemma login_result_plain_text:
  assumes "status_code resp = 200"
    and "\<not> contains (lit ''application/json'') (case content_type resp of None \<Rightarrow> [] | Some c \<Rightarrow> c)"
  shows "login_result repr resp =
         (if strip (body_text resp) = []
          then Inl (SkribbleAuthError (lit ''Login succeeded but access token is empty.''))
          else Inr (JStr (strip (body_text resp))))"
  using assms by (simp add: login_result_def)

lemma login_result_raw_token:
  "login_result repr
     \<lparr>status_code = 200, content_type = Some (lit ''text/plain''),
      body_text = lit ''  raw-token  '' @ [0x0A], json_body = None\<rparr>
   = Inr (JStr (lit ''raw-token''))"
  by (simp add: login_result_def strip_def py_isspace_def lit_def)

text \<open>
  An object whose token fields are all absent or false is refused with the \<open>AuthError\<close>
  of line 155, and \<open>get_access_token\<close> then writes nothing to the cache.
\<close>

lemma login_result_empty_access_token:
  \<open>login_result repr (json_response 200 (lit ''{"access_token": ""}'')
       (JObj [(lit ''access_token'', JStr [])]))
     = Inl (SkribbleAuthError
             (lit ''Login succeeded but no access token found in response JSON.''))
   \<and> get_access_token repr
        (example_manager SkribbleConfig_default (lit ''alice'') None
          (Inr (json_response 200 (lit ''{"access_token": ""}'')
                 (JObj [(lit ''access_token'', JStr [])]))) 1000 1001)
        True \<lparr>cache_state = InMemoryTokenCache_init, requests_sent = []\<rparr>
     = (Inl (SkribbleAuthError
              (lit ''Login succeeded but no access token found in response JSON.'')),
        \<lparr>cache_state = InMemoryTokenCache_init,
         requests_sent =
           [login_request (example_manager SkribbleConfig_default (lit ''alice'') None
              (Inr (json_response 200 (lit ''{"access_token": ""}'')
                     (JObj [(lit ''access_token'', JStr [])]))) 1000 1001)]\<rparr>)\<close>
proof -
  let ?r = \<open>json_response 200 (lit ''{"access_token": ""}'') (JObj [(lit ''access_token'', JStr [])])\<close>
  let ?m = "example_manager SkribbleConfig_default (lit ''alice'') None (Inr ?r) 1000 1001"
  have l: "login_result repr ?r
           = Inl (SkribbleAuthError
                   (lit ''Login succeeded but no access token found in response JSON.''))"
    by (simp add: login_result_def token_fields_def py_or_def json_response_def dict_get_def
        lit_def)
  have a: "session ?m (login_request ?m) = Inr ?r"
    by (simp add: example_manager_def)
  from refresh_login_error [OF a l] l show ?thesis
    by (simp add: get_access_token_force)
qed

section \<open>get_access_token with the default configuration\<close>

lemma cache_key_stock:
  "cache_key (example_manager SkribbleConfig_default user tenant answer t_get t_setex)
   = Inl (AttributeError ''cache_key_prefix'')"
  by (simp add: cache_key_def cache_key_prefix_def SkribbleConfig_default_def
      example_manager_def)

text \<open>
  C2. A manager that finds a non-empty value in the cache under its key is to return it
  decoded, without a network call. With the default configuration the key cannot be
  computed (the defect of C1): the in-memory cache holds \<open>b"tok123"\<close> under
  \<open>skribble:token:alice\<close>, valid until the instant 2000, and at the instant 1000
  \<open>get_access_token\<close> of the manager of \<open>alice\<close> raises \<open>AttributeError\<close> at line 94,
  before it reads the cache, and returns no token.
\<close>

theorem get_access_token_cached_default_config:
  "InMemoryTokenCache_get (lit ''skribble:token:alice'') 1000
       (InMemoryTokenCache_init(lit ''skribble:token:alice'' \<mapsto> (2000, ascii_bytes ''tok123'')))
     = (Some (ascii_bytes ''tok123''),
        InMemoryTokenCache_init(lit ''skribble:token:alice'' \<mapsto> (2000, ascii_bytes ''tok123'')))
   \<and> get_access_token repr
        (example_manager SkribbleConfig_default (lit ''alice'') None (Inl (lit ''no network''))
           1000 1000)
        False
        \<lparr> cache_state =
            InMemoryTokenCache_init(lit ''skribble:token:alice'' \<mapsto> (2000, ascii_bytes ''tok123'')),
          requests_sent = [] \<rparr>
     = (Inl (AttributeError ''cache_key_prefix''),
        \<lparr> cache_state =
            InMemoryTokenCache_init(lit ''skribble:token:alice'' \<mapsto> (2000, ascii_bytes ''tok123'')),
          requests_sent = [] \<rparr>)"
  by (simp add: get_access_token_def cache_key_stock InMemoryTokenCache_get_def)

text \<open>
  C3. A call that does not take the fast path is to log in once, store the fresh token
  under the manager's key and return it. With the default configuration the key cannot
  be computed (the defect of C1). The login is answered by \<open>{"access_token": "tok123"}\<close>
  with status 200 and the in-memory cache is empty: on a forced refresh
  \<open>get_access_token\<close> sends the login request and then raises \<open>AttributeError\<close> at line
  100, storing and returning nothing; without \<open>force_refresh\<close> it raises at line 94 and
  sends no request.
\<close>

theorem get_access_token_refresh_default_config:
  \<open>login_result repr (json_response 200 (lit ''{"access_token": "tok123"}'')
        (JObj [(lit ''access_token'', JStr (lit ''tok123''))]))
     = Inr (JStr (lit ''tok123''))
   \<and> get_access_token repr
        (example_manager SkribbleConfig_default (lit ''alice'') None
          (Inr (json_response 200 (lit ''{"access_token": "tok123"}'')
                 (JObj [(lit ''access_token'', JStr (lit ''tok123''))]))) 1000 1001)
        True \<lparr>cache_state = InMemoryTokenCache_init, requests_sent = []\<rparr>
     = (Inl (AttributeError ''cache_key_prefix''),
        \<lparr>cache_state = InMemoryTokenCache_init,
         requests_sent =
           [login_request (example_manager SkribbleConfig_default (lit ''alice'') None
              (Inr (json_response 200 (lit ''{"access_token": "tok123"}'')
                     (JObj [(lit ''access_token'', JStr (lit ''tok123''))]))) 1000 1001)]\<rparr>)
   \<and> get_access_token repr
        (example_manager SkribbleConfig_default (lit ''alice'') None
          (Inr (json_response 200 (lit ''{"access_token": "tok123"}'')
                 (JObj [(lit ''access_token'', JStr (lit ''tok123''))]))) 1000 1001)
        False \<lparr>cache_state = InMemoryTokenCache_init, requests_sent = []\<rparr>
     = (Inl (AttributeError ''cache_key_prefix''),
        \<lparr>cache_state = InMemoryTokenCache_init, requests_sent = []\<rparr>)\<close>
proof -
  let ?r = \<open>json_response 200 (lit ''{"access_token": "tok123"}'')
               (JObj [(lit ''access_token'', JStr (lit ''tok123''))])\<close>
  let ?m = "example_manager SkribbleConfig_default (lit ''alice'') None (Inr ?r) 1000 1001"
  have l: "login_result repr ?r = Inr (JStr (lit ''tok123''))"
    by (simp add: login_result_def token_fields_def py_or_def json_response_def dict_get_def
        lit_def)
  have a: "session ?m (login_request ?m) = Inr ?r"
    by (simp add: example_manager_def)
  have t: "get_access_token repr ?m True \<lparr>cache_state = InMemoryTokenCache_init, requests_sent = []\<rparr>
           = (Inl (AttributeError ''cache_key_prefix''),
              \<lparr>cache_state = InMemoryTokenCache_init, requests_sent = [login_request ?m]\<rparr>)"
    by (simp add: get_access_token_force refresh_def login_answer [OF a] l cache_key_stock)
  have f: "get_access_token repr ?m False \<lparr>cache_state = InMemoryTokenCache_init, requests_sent = []\<rparr>
           = (Inl (AttributeError ''cache_key_prefix''),
              \<lparr>cache_state = InMemoryTokenCache_init, requests_sent = []\<rparr>)"
    by (simp add: get_access_token_def cache_key_stock)
  from l t f show ?thesis
    by simp
qed

end
